theory Spec2Isabelle
  imports Complex_Main
begin

section \<open>Telemetry-to-geometry extraction (OdometryController.getCommand)\<close>

text \<open>
  JavaScript numbers are modelled as \<^typ>\<open>real\<close>: the extraction code only compares,
  adds, scales and rounds them, and the properties below are stated over exact arithmetic.
  A JavaScript exception is a value of type \<open>error\<close>.

  The unit conversion \<open>convert(value, from, to)\<close> lives in \<open>shared/units\<close>, which is not part
  of the sources at hand; every function that calls it takes it as the parameter \<open>convert\<close>.
\<close>

datatype error = TypeError

type_synonym Translation2d = "real \<times> real"

record Pose2d =
  translation :: Translation2d
  rotation :: real

text \<open>What \<open>window.log.getNumberArray(key, start, end)\<close> returns when the key exists.\<close>

record LogData =
  timestamps :: "real list"
  values' :: "real list list"

subsection \<open>getCurrentValue\<close>

text \<open>The object pushed for the triple that starts at index \<open>i\<close>.\<close>

definition poseAt ::
  "(real \<Rightarrow> string \<Rightarrow> string \<Rightarrow> real) \<Rightarrow> string \<Rightarrow> string \<Rightarrow> real list \<Rightarrow> nat \<Rightarrow> Pose2d"
where
  "poseAt convert unitDistance unitRotation v i =
     \<lparr>translation = (convert (v ! i) unitDistance ''meters'',
                     convert (v ! (i + 1)) unitDistance ''meters''),
      rotation = convert (v ! (i + 2)) unitRotation ''radians''\<rparr>"

text \<open>
  The loop \<open>for (let i = 0; i < logData.values[0].length; i += 3)\<close>. It is entered only
  when the length is a multiple of three, so the reads at \<open>i + 1\<close> and \<open>i + 2\<close> are in range.
\<close>

function poseTriples ::
  "(real \<Rightarrow> string \<Rightarrow> string \<Rightarrow> real) \<Rightarrow> string \<Rightarrow> string \<Rightarrow> real list \<Rightarrow> nat \<Rightarrow> Pose2d list"
where
  "poseTriples convert unitDistance unitRotation v i =
     (if i < length v
      then poseAt convert unitDistance unitRotation v i
           # poseTriples convert unitDistance unitRotation v (i + 3)
      else [])"
  by pat_completeness auto
termination
  by (relation "measure (\<lambda>(c, ud, ur, v, i). length v - i)") auto

declare poseTriples.simps [simp del]

text \<open>
  \<open>logData\<close> is \<open>None\<close> when the store has no such key. \<open>logData.timestamps[0] <= time\<close> is
  false when the timestamp list is empty (\<open>undefined <= time\<close>); reading \<open>.length\<close> of a
  missing \<open>values[0]\<close> raises a TypeError.
\<close>

definition getCurrentValue ::
  "(real \<Rightarrow> string \<Rightarrow> string \<Rightarrow> real) \<Rightarrow> string \<Rightarrow> string \<Rightarrow> LogData option \<Rightarrow> real
     \<Rightarrow> error + Pose2d list"
where
  "getCurrentValue convert unitDistance unitRotation logData time =
     (case logData of
        None \<Rightarrow> Inr []
      | Some ld \<Rightarrow>
          (case timestamps ld of
             [] \<Rightarrow> Inr []
           | t0 # _ \<Rightarrow>
               if t0 \<le> time then
                 (case values' ld of
                    [] \<Rightarrow> Inl TypeError
                  | v # _ \<Rightarrow>
                      if length v = 2 \<or> length v mod 3 = 0 then
                        (if length v = 2
                         then Inr [\<lparr>translation = (convert (v ! 0) unitDistance ''meters'',
                                                    convert (v ! 1) unitDistance ''meters''),
                                     rotation = 0\<rparr>]
                         else Inr (poseTriples convert unitDistance unitRotation v 0))
                      else Inr [])
               else Inr []))"

subsection \<open>Robot trails: trimming the window query\<close>



subsection \<open>Heatmap: resampling\<close>

definition HEATMAP_DT :: real where
  "HEATMAP_DT = 0.1"

record HeatmapSample =
  timestamp :: real
  value' :: Translation2d













subsection \<open>Heatmap: minimum-spacing filter\<close>

text \<open>
  The body of \<open>heatmapData.forEach((sample) => ...)\<close> on the pair
  \<open>(heatmapDataValues, lastTimestamp)\<close>.
\<close>

definition filterStep ::
  "Translation2d list \<times> real \<Rightarrow> HeatmapSample \<Rightarrow> Translation2d list \<times> real"
where
  "filterStep st sample =
     (case st of (heatmapDataValues, lastTimestamp) \<Rightarrow>
        if timestamp sample = lastTimestamp \<or> timestamp sample - lastTimestamp \<ge> HEATMAP_DT
        then (heatmapDataValues @ [value' sample], timestamp sample)
        else (heatmapDataValues, lastTimestamp))"

text \<open>
  \<open>lastTimestamp\<close> starts at 0; the sort by \<open>a.timestamp - b.timestamp\<close> is stable, as
  \<^const>\<open>sort_key\<close> is.
\<close>

definition filterHeatmap :: "HeatmapSample list \<Rightarrow> Translation2d list" where
  "filterHeatmap heatmapData =
     fst (foldl filterStep ([], 0) (sort_key timestamp heatmapData))"


section \<open>The 3D visualizer (ThreeDimensionVisualizer)\<close>

subsection \<open>Quaternions of the three.js library\<close>

text \<open>
  The operations of \<open>THREE.Quaternion\<close> that the visualizer calls, with the library's
  formulas: \<open>new Quaternion()\<close> is the identity, \<open>a.multiply(b)\<close> stores the Hamilton product
  \<open>a b\<close> in \<open>a\<close>, \<open>a.premultiply(b)\<close> stores \<open>b a\<close> in \<open>a\<close>, \<open>invert\<close> takes the conjugate
  (the library assumes unit length), and \<open>setFromAxisAngle\<close> uses the half angle.
\<close>

type_synonym vec3 = "real \<times> real \<times> real"

record Quaternion =
  qx :: real
  qy :: real
  qz :: real
  qw :: real

definition newQuaternion :: Quaternion where
  "newQuaternion = \<lparr>qx = 0, qy = 0, qz = 0, qw = 1\<rparr>"

definition multiplyQuaternions :: "Quaternion \<Rightarrow> Quaternion \<Rightarrow> Quaternion" where
  "multiplyQuaternions a b =
     \<lparr>qx = qx a * qw b + qw a * qx b + qy a * qz b - qz a * qy b,
      qy = qy a * qw b + qw a * qy b + qz a * qx b - qx a * qz b,
      qz = qz a * qw b + qw a * qz b + qx a * qy b - qy a * qx b,
      qw = qw a * qw b - qx a * qx b - qy a * qy b - qz a * qz b\<rparr>"

definition premultiply :: "Quaternion \<Rightarrow> Quaternion \<Rightarrow> Quaternion" where
  "premultiply this q = multiplyQuaternions q this"

definition invert :: "Quaternion \<Rightarrow> Quaternion" where
  "invert q = \<lparr>qx = - qx q, qy = - qy q, qz = - qz q, qw = qw q\<rparr>"

definition setFromAxisAngle :: "vec3 \<Rightarrow> real \<Rightarrow> Quaternion" where
  "setFromAxisAngle ax angle =
     (case ax of (x, y, z) \<Rightarrow>
        \<lparr>qx = x * sin (angle / 2), qy = y * sin (angle / 2), qz = z * sin (angle / 2),
         qw = cos (angle / 2)\<rparr>)"

subsection \<open>getQuaternionFromRotSeq and rotateTranslationByRotation\<close>

record Config3d_Rotation =
  axis :: string
  degrees :: real

text \<open>The vector built by the three \<open>if (rotation.axis == ...)\<close> statements.\<close>

definition axisVector :: "string \<Rightarrow> vec3" where
  "axisVector a =
     (if a = ''x'' then 1 else 0, if a = ''y'' then 1 else 0, if a = ''z'' then 1 else 0)"

definition unitRotation ::
  "(real \<Rightarrow> string \<Rightarrow> string \<Rightarrow> real) \<Rightarrow> Config3d_Rotation \<Rightarrow> Quaternion"
where
  "unitRotation convert rot =
     setFromAxisAngle (axisVector (axis rot))
       (convert (degrees rot) ''degrees'' ''radians'')"

definition getQuaternionFromRotSeq ::
  "(real \<Rightarrow> string \<Rightarrow> string \<Rightarrow> real) \<Rightarrow> Config3d_Rotation list \<Rightarrow> Quaternion"
where
  "getQuaternionFromRotSeq convert rotations =
     foldl (\<lambda>quaternion rot. premultiply quaternion (unitRotation convert rot))
       newQuaternion rotations"

definition rotateTranslationByRotation :: "vec3 \<Rightarrow> Quaternion \<Rightarrow> vec3" where
  "rotateTranslationByRotation pos rot =
     (case pos of (x, y, z) \<Rightarrow>
        let p = \<lparr>qx = x, qy = y, qz = z, qw = 0\<rparr>;
            qprime = multiplyQuaternions rot p;
            qprime' = multiplyQuaternions qprime (invert rot)
        in (qx qprime', qy qprime', qz qprime'))"

text \<open>
  The composition the specification describes: the unit rotations pre-multiplied in reverse
  list order.
\<close>

definition premultiplyReverseOrder ::
  "(real \<Rightarrow> string \<Rightarrow> string \<Rightarrow> real) \<Rightarrow> Config3d_Rotation list \<Rightarrow> Quaternion"
where
  "premultiplyReverseOrder convert rotations =
     foldl (\<lambda>quaternion rot. premultiply quaternion (unitRotation convert rot))
       newQuaternion (rev rotations)"

text \<open>
  Modelled from the spec: \<open>convert\<close> of \<open>shared/units\<close> is not among the sources. The
  specification gives rotation angles in degrees that the library needs in radians, and
  field sizes in inches that become meters; the model uses the factors \<open>pi / 180\<close> and
  \<open>0.0254\<close> for these two pairs and leaves every other pair unchanged. It is used only to
  evaluate concrete examples; the general properties hold for every \<open>convert\<close>.
\<close>

definition convertUnits :: "real \<Rightarrow> string \<Rightarrow> string \<Rightarrow> real" where
  "convertUnits v from to =
     (if from = ''degrees'' \<and> to = ''radians'' then v * pi / 180
      else if from = ''inches'' \<and> to = ''meters'' then v * 0.0254
      else v)"

subsection \<open>Asset catalog, command and scene state\<close>

text \<open>
  The catalog types of \<open>shared/FRCData\<close> are declared outside the sources at hand; the
  records carry the fields that the visualizer reads. The fields \<open>title\<close>, \<open>path\<close>,
  \<open>rotations\<close>, \<open>position\<close> and \<open>name\<close> are prefixed with \<open>f\<close>, \<open>r\<close> or \<open>c\<close> for the field, robot
  and camera records, which share these names in the source.
\<close>

record Config3d_Camera =
  cName :: string
  cRotations :: "Config3d_Rotation list"
  cPosition :: vec3
  resolution :: "real \<times> real"
  fov :: real

record Config3d_Robot =
  rTitle :: string
  rPath :: string
  rRotations :: "Config3d_Rotation list"
  rPosition :: vec3
  cameras :: "Config3d_Camera list"

record Config3d_Field =
  fTitle :: string
  fPath :: string
  fRotations :: "Config3d_Rotation list"
  widthInches :: real
  heightInches :: real

record FRCData =
  field3ds :: "Config3d_Field list"
  robots :: "Config3d_Robot list"

text \<open>\<open>Pose3d\<close>: the rotation is stored as W, X, Y, Z.\<close>

record Pose3d =
  posePosition :: vec3
  poseRotation :: "real \<times> real \<times> real \<times> real"

text \<open>The quaternion \<open>new Quaternion(rotation[1], rotation[2], rotation[3], rotation[0])\<close>.\<close>

definition poseQuaternion :: "Pose3d \<Rightarrow> Quaternion" where
  "poseQuaternion pose =
     (case poseRotation pose of (w, x, y, z) \<Rightarrow> \<lparr>qx = x, qy = y, qz = z, qw = w\<rparr>)"

text \<open>The command handed to \<open>render\<close>: \<open>options.field\<close>, \<open>options.robot\<close>,
  \<open>options.alliance\<close>, \<open>poses.robot\<close> (null when absent) and the three cone lists.\<close>

record Command =
  optionsField :: string
  optionsRobot :: string
  optionsAlliance :: string
  posesRobot :: "Pose3d option"
  posesGreen :: "Pose3d list"
  posesBlue :: "Pose3d list"
  posesYellow :: "Pose3d list"

text \<open>
  What a frame reads from its surroundings: \<open>window.preferences?.threeDimensionMode\<close>,
  \<open>window.frcData\<close>, the canvas size, the pixel ratio, the colour scheme, \<open>content.hidden\<close>
  and the clock.
\<close>

record Window =
  preferences :: "string option"
  frcData :: "FRCData option"
  clientWidth :: real
  clientHeight :: real
  devicePixelRatio :: real
  isDark :: bool
  hidden :: bool
  now :: real

text \<open>
  Scene objects live in a store indexed by identity. An object carries its position and the
  quaternion last given to \<open>rotation.setFromQuaternion\<close>; the children of the two coordinate
  groups are lists of identities.
\<close>

record Object3D =
  objPosition :: vec3
  objRotation :: Quaternion

text \<open>An asynchronous \<open>loader.load\<close> in flight, with the configuration its callback captured.\<close>

datatype Load = FieldLoad Config3d_Field | RobotLoad Config3d_Robot

text \<open>
  The transform of \<open>wpilibCoordinateGroup\<close>, by the branch of the frame that wrote it last:
  the default origin (position 0 and \<open>WPILIB_ROTATION\<close>, as the constructor leaves it), or the
  transform computed from the world position and orientation of a robot object, which makes
  that robot the origin.
\<close>

datatype GroupOrigin = DefaultOrigin | RobotRelative nat

text \<open>
  The fields of the class that the modelled code reads or writes. \<open>lastFrcDataString\<close> holds
  the catalog itself, compared by value as the serialised strings are; \<open>None\<close> is the initial
  empty string. \<open>coordinateGroupOrigin\<close> stands for the position and rotation of
  \<open>wpilibCoordinateGroup\<close>. The camera's own transform and projection, \<open>lastAspectRatio\<close> and
  the renderer are written by the frame but never read back by the code modelled here, and
  are left out.
\<close>

record Visualizer =
  objects :: "nat \<Rightarrow> Object3D option"
  nextId :: nat
  wpilibCoordinateGroup :: "nat list"
  wpilibFieldCoordinateGroup :: "nat list"
  coordinateGroupOrigin :: GroupOrigin
  fieldCoordinateRotation :: "vec3 \<times> real"
  fieldCoordinatePosition :: vec3
  field :: "nat option"
  robot :: "nat option"
  robotCameras :: "nat list"
  greenCones :: "nat list"
  blueCones :: "nat list"
  yellowCones :: "nat list"
  command :: "Command option"
  shouldRender :: bool
  cameraIndex :: int
  lastCameraIndex :: int
  lastFrameTime :: real
  lastWidth :: "real option"
  lastHeight :: "real option"
  lastDevicePixelRatio :: "real option"
  lastIsDark :: "bool option"
  lastPrefsMode :: string
  lastFrcDataString :: "FRCData option"
  lastFieldTitle :: string
  lastRobotTitle :: string
  lastRobotVisible :: bool
  controlsEnabled :: bool
  canvasFixed :: bool
  pendingLoads :: "Load list"


subsection \<open>Scene graph operations\<close>

text \<open>
  \<open>parent.add(object)\<close> first detaches the object from its parent and then appends it to
  the children; \<open>parent.remove(object)\<close> deletes it from the children if it is there.
\<close>

definition add :: "nat \<Rightarrow> nat list \<Rightarrow> nat list" where
  "add obj children = remove1 obj children @ [obj]"

definition remove :: "nat \<Rightarrow> nat list \<Rightarrow> nat list" where
  "remove obj children = remove1 obj children"

definition newObject3D :: Object3D where
  "newObject3D = \<lparr>objPosition = (0, 0, 0), objRotation = newQuaternion\<rparr>"

text \<open>\<open>wpilibFieldCoordinateGroup\<close> is the first object created and the only child of
  \<open>wpilibCoordinateGroup\<close> when the constructor returns.\<close>

definition constructor :: Visualizer where
  "constructor =
     \<lparr>objects = [0 \<mapsto> newObject3D],
      nextId = 1,
      wpilibCoordinateGroup = [0],
      wpilibFieldCoordinateGroup = [],
      coordinateGroupOrigin = DefaultOrigin,
      fieldCoordinateRotation = ((0, 0, 1), 0),
      fieldCoordinatePosition = (0, 0, 0),
      field = None,
      robot = None,
      robotCameras = [],
      greenCones = [],
      blueCones = [],
      yellowCones = [],
      command = None,
      shouldRender = False,
      cameraIndex = - 1,
      lastCameraIndex = - 1,
      lastFrameTime = 0,
      lastWidth = Some 0,
      lastHeight = Some 0,
      lastDevicePixelRatio = None,
      lastIsDark = None,
      lastPrefsMode = [],
      lastFrcDataString = None,
      lastFieldTitle = [],
      lastRobotTitle = [],
      lastRobotVisible = False,
      controlsEnabled = True,
      canvasFixed = False,
      pendingLoads = []\<rparr>"

subsection \<open>set3DCamera, render and the orbit controls' change event\<close>

definition set3DCamera :: "int \<Rightarrow> Visualizer \<Rightarrow> Visualizer" where
  "set3DCamera index this = this\<lparr>cameraIndex := index, shouldRender := True\<rparr>"

definition render :: "Command option \<Rightarrow> Visualizer \<Rightarrow> Visualizer" where
  "render cmd this =
     (if cmd \<noteq> command this then this\<lparr>shouldRender := True\<rparr> else this)\<lparr>command := cmd\<rparr>"

definition controlsChange :: "Visualizer \<Rightarrow> Visualizer" where
  "controlsChange this = this\<lparr>shouldRender := True\<rparr>"

subsection \<open>Completion of the asynchronous loads\<close>

text \<open>
  The callback given to \<open>loader.load\<close> for the field. The loaded scene is a fresh object.
  The test \<open>fieldConfig == undefined\<close> is on the variable the callback captured, which was
  defined when the load was issued.
\<close>

definition fieldLoaded ::
  "(real \<Rightarrow> string \<Rightarrow> string \<Rightarrow> real) \<Rightarrow> Config3d_Field \<Rightarrow> Visualizer \<Rightarrow> Visualizer"
where
  "fieldLoaded convert fieldConfig this =
     (let gltfScene = nextId this
      in this\<lparr>nextId := nextId this + 1,
              objects := (objects this)(gltfScene \<mapsto>
                 newObject3D\<lparr>objRotation :=
                    getQuaternionFromRotSeq convert (fRotations fieldConfig)\<rparr>),
              field := Some gltfScene,
              wpilibCoordinateGroup := add gltfScene (wpilibCoordinateGroup this),
              shouldRender := True\<rparr>)"

text \<open>The camera objects made by \<open>robotConfig.cameras.map\<close>, stored from identity \<open>i\<close> on.\<close>

fun addCameras ::
  "(real \<Rightarrow> string \<Rightarrow> string \<Rightarrow> real) \<Rightarrow> Config3d_Camera list \<Rightarrow> nat
     \<Rightarrow> (nat \<Rightarrow> Object3D option) \<Rightarrow> (nat \<Rightarrow> Object3D option)"
where
  "addCameras convert [] i objs = objs"
| "addCameras convert (camera # rest) i objs =
     addCameras convert rest (i + 1)
       (objs(i \<mapsto>
          \<lparr>objPosition = cPosition camera,
           objRotation = getQuaternionFromRotSeq convert
             ([\<lparr>axis = ''z'', degrees = - 90\<rparr>, \<lparr>axis = ''y'', degrees = - 90\<rparr>]
              @ cRotations camera)\<rparr>))"

text \<open>
  The callback given to \<open>loader.load\<close> for the robot: the loaded model, the new group that
  holds it, and one object per declared camera. The only test before installing is on the
  captured \<open>robotConfig\<close>, which is defined.
\<close>

definition robotLoaded ::
  "(real \<Rightarrow> string \<Rightarrow> string \<Rightarrow> real) \<Rightarrow> Config3d_Robot \<Rightarrow> Visualizer \<Rightarrow> Visualizer"
where
  "robotLoaded convert robotConfig this =
     (let robotModel = nextId this;
          group = nextId this + 1;
          firstCamera = nextId this + 2;
          objs = (objects this)
                   (robotModel \<mapsto>
                      \<lparr>objPosition = rPosition robotConfig,
                       objRotation = getQuaternionFromRotSeq convert (rRotations robotConfig)\<rparr>,
                    group \<mapsto> newObject3D)
      in this\<lparr>nextId := firstCamera + length (cameras robotConfig),
              objects := addCameras convert (cameras robotConfig) firstCamera objs,
              robot := Some group,
              wpilibFieldCoordinateGroup :=
                (if lastRobotVisible this then add group (wpilibFieldCoordinateGroup this)
                 else wpilibFieldCoordinateGroup this),
              robotCameras := [firstCamera ..< firstCamera + length (cameras robotConfig)],
              shouldRender := True\<rparr>)"

text \<open>
  The \<open>k\<close>-th load in flight completes: its callback runs and the load is no longer
  pending. Loads complete in any order; there is no cancellation. A load that fails never
  calls back.
\<close>

definition loadComplete ::
  "(real \<Rightarrow> string \<Rightarrow> string \<Rightarrow> real) \<Rightarrow> nat \<Rightarrow> Visualizer \<Rightarrow> Visualizer"
where
  "loadComplete convert k this =
     (if k < length (pendingLoads this) then
        (let this' = this\<lparr>pendingLoads :=
                            take k (pendingLoads this) @ drop (k + 1) (pendingLoads this)\<rparr>
         in case pendingLoads this ! k of
              FieldLoad fieldConfig \<Rightarrow> fieldLoaded convert fieldConfig this'
            | RobotLoad robotConfig \<Rightarrow> robotLoaded convert robotConfig this')
      else this)"

definition loadFailed :: "nat \<Rightarrow> Visualizer \<Rightarrow> Visualizer" where
  "loadFailed k this =
     this\<lparr>pendingLoads := take k (pendingLoads this) @ drop (k + 1) (pendingLoads this)\<rparr>"


subsection \<open>renderFrame: the checks before drawing\<close>

definition EFFICIENCY_MAX_FPS :: real where
  "EFFICIENCY_MAX_FPS = 15"

text \<open>\<open>// Check for new render mode\<close>\<close>

definition checkRenderMode :: "Window \<Rightarrow> Visualizer \<Rightarrow> Visualizer" where
  "checkRenderMode window this =
     (case preferences window of
        None \<Rightarrow> this
      | Some threeDimensionMode \<Rightarrow>
          if threeDimensionMode \<noteq> lastPrefsMode this
          then this\<lparr>shouldRender := True, lastPrefsMode := threeDimensionMode\<rparr>
          else this)"

text \<open>\<open>// Check for new size, device pixel ratio, or theme\<close>\<close>

definition checkSize :: "Window \<Rightarrow> Visualizer \<Rightarrow> Visualizer" where
  "checkSize window this =
     (if Some (clientWidth window) \<noteq> lastWidth this
         \<or> Some (clientHeight window) \<noteq> lastHeight this
         \<or> Some (devicePixelRatio window) \<noteq> lastDevicePixelRatio this
         \<or> Some (isDark window) \<noteq> lastIsDark this
      then this\<lparr>lastWidth := Some (clientWidth window),
                lastHeight := Some (clientHeight window),
                lastDevicePixelRatio := Some (devicePixelRatio window),
                lastIsDark := Some (isDark window),
                shouldRender := True\<rparr>
      else this)"

subsection \<open>renderFrame: field and robot assets\<close>

text \<open>\<open>// Add field\<close>\<close>

definition addField :: "string \<Rightarrow> Config3d_Field \<Rightarrow> Visualizer \<Rightarrow> Visualizer" where
  "addField fieldTitle fieldConfig this =
     (if fieldTitle \<noteq> lastFieldTitle this then
        (let this1 = this\<lparr>lastFieldTitle := fieldTitle\<rparr>;
             this2 = (case field this1 of
                        Some f \<Rightarrow>
                          this1\<lparr>wpilibCoordinateGroup := remove f (wpilibCoordinateGroup this1)\<rparr>
                      | None \<Rightarrow> this1)
         in this2\<lparr>pendingLoads := pendingLoads this2 @ [FieldLoad fieldConfig]\<rparr>)
      else this)"

text \<open>\<open>// Add robot\<close>\<close>

definition addRobot :: "string \<Rightarrow> Config3d_Robot \<Rightarrow> bool \<Rightarrow> Visualizer \<Rightarrow> Visualizer" where
  "addRobot robotTitle robotConfig newFrcData this =
     (if robotTitle \<noteq> lastRobotTitle this \<or> newFrcData then
        (let this1 = this\<lparr>lastRobotTitle := robotTitle\<rparr>;
             this2 = (case robot this1 of
                        Some r \<Rightarrow>
                          if lastRobotVisible this1
                          then this1\<lparr>wpilibFieldCoordinateGroup :=
                                        remove r (wpilibFieldCoordinateGroup this1)\<rparr>
                          else this1
                      | None \<Rightarrow> this1)
         in this2\<lparr>robot := None, robotCameras := [],
                   pendingLoads := pendingLoads this2 @ [RobotLoad robotConfig]\<rparr>)
      else this)"

subsection \<open>renderFrame: field coordinates and robot pose\<close>

text \<open>
  \<open>// Update field coordinates\<close>. The rotation is kept as the axis and angle given to
  \<open>setRotationFromAxisAngle\<close>.
\<close>

definition updateFieldCoordinates ::
  "(real \<Rightarrow> string \<Rightarrow> string \<Rightarrow> real) \<Rightarrow> Config3d_Field \<Rightarrow> string \<Rightarrow> Visualizer \<Rightarrow> Visualizer"
where
  "updateFieldCoordinates convert fieldConfig alliance this =
     (let isBlue = (alliance = ''blue'')
      in this\<lparr>fieldCoordinateRotation := ((0, 0, 1), if isBlue then 0 else pi),
              fieldCoordinatePosition :=
                (convert (widthInches fieldConfig / 2) ''inches'' ''meters''
                   * (if isBlue then - 1 else 1),
                 convert (heightInches fieldConfig / 2) ''inches'' ''meters''
                   * (if isBlue then - 1 else 1),
                 0)\<rparr>)"

text \<open>\<open>position.set(...pose.position)\<close> and \<open>rotation.setFromQuaternion\<close> on one object.\<close>

definition setPose ::
  "nat \<Rightarrow> Pose3d \<Rightarrow> (nat \<Rightarrow> Object3D option) \<Rightarrow> (nat \<Rightarrow> Object3D option)"
where
  "setPose obj pose objs =
     objs(obj \<mapsto> \<lparr>objPosition = posePosition pose, objRotation = poseQuaternion pose\<rparr>)"

text \<open>\<open>// Set robot position\<close>\<close>

definition setRobotPosition :: "Command \<Rightarrow> Visualizer \<Rightarrow> Visualizer" where
  "setRobotPosition cmd this =
     (case robot this of
        None \<Rightarrow> this
      | Some r \<Rightarrow>
          (let this1 =
                 (case posesRobot cmd of
                    Some robotPose \<Rightarrow>
                      (let this' = (if \<not> lastRobotVisible this
                                    then this\<lparr>wpilibFieldCoordinateGroup :=
                                                 add r (wpilibFieldCoordinateGroup this)\<rparr>
                                    else this)
                       in this'\<lparr>objects := setPose r robotPose (objects this')\<rparr>)
                  | None \<Rightarrow>
                      if lastRobotVisible this
                      then this\<lparr>wpilibFieldCoordinateGroup :=
                                  remove r (wpilibFieldCoordinateGroup this)\<rparr>
                      else this)
           in this1\<lparr>lastRobotVisible := (posesRobot cmd \<noteq> None)\<rparr>))"

subsection \<open>renderFrame: cones\<close>

text \<open>
  \<open>updateCones\<close> works on one cone array and on the scene; the scene part is the triple of
  the children of \<open>wpilibFieldCoordinateGroup\<close>, the object store and the next fresh
  identity. A cone is one group object (its mesh child has a constant local transform).
\<close>

text \<open>\<open>// Remove extra cones\<close>\<close>

function removeExtraCones :: "nat \<Rightarrow> nat list \<Rightarrow> nat list \<Rightarrow> nat list \<times> nat list" where
  "removeExtraCones n objectArray children =
     (if n < length objectArray
      then removeExtraCones n (butlast objectArray) (remove (last objectArray) children)
      else (objectArray, children))"
  by pat_completeness auto
termination
  by (relation "measure (\<lambda>(n, objectArray, children). length objectArray)") auto

declare removeExtraCones.simps [simp del]

text \<open>\<open>// Add new cones\<close>\<close>

function addNewCones ::
  "nat \<Rightarrow> nat list \<Rightarrow> nat list \<Rightarrow> (nat \<Rightarrow> Object3D option) \<Rightarrow> nat
     \<Rightarrow> nat list \<times> nat list \<times> (nat \<Rightarrow> Object3D option) \<times> nat"
where
  "addNewCones n objectArray children objs next =
     (if n > length objectArray
      then addNewCones n (objectArray @ [next]) (add next children)
             (objs(next \<mapsto> newObject3D)) (next + 1)
      else (objectArray, children, objs, next))"
  by pat_completeness auto
termination
  by (relation "measure (\<lambda>(n, objectArray, children, objs, next). n - length objectArray)")
     auto

declare addNewCones.simps [simp del]

text \<open>\<open>// Set cone poses\<close>: after the two loops the array is as long as the pose list.\<close>

fun setConePoses ::
  "Pose3d list \<Rightarrow> nat list \<Rightarrow> (nat \<Rightarrow> Object3D option) \<Rightarrow> (nat \<Rightarrow> Object3D option)"
where
  "setConePoses (pose # poseData) (cone # objectArray) objs =
     setConePoses poseData objectArray (setPose cone pose objs)"
| "setConePoses poseData objectArray objs = objs"

definition updateCones ::
  "Pose3d list \<Rightarrow> nat list \<Rightarrow> Visualizer \<Rightarrow> nat list \<times> Visualizer"
where
  "updateCones poseData objectArray this =
     (case removeExtraCones (length poseData) objectArray (wpilibFieldCoordinateGroup this) of
        (objectArray1, children1) \<Rightarrow>
          (case addNewCones (length poseData) objectArray1 children1 (objects this)
                  (nextId this) of
             (objectArray2, children2, objs2, next2) \<Rightarrow>
               (objectArray2,
                this\<lparr>wpilibFieldCoordinateGroup := children2,
                      objects := setConePoses poseData objectArray2 objs2,
                      nextId := next2\<rparr>)))"

text \<open>\<open>// Update all sets of cones\<close>\<close>

definition updateAllCones :: "Command \<Rightarrow> Visualizer \<Rightarrow> Visualizer" where
  "updateAllCones cmd this =
     (case updateCones (posesGreen cmd) (greenCones this) this of
        (green, this1) \<Rightarrow>
          (case updateCones (posesBlue cmd) (blueCones this1) (this1\<lparr>greenCones := green\<rparr>) of
             (blue, this2) \<Rightarrow>
               (case updateCones (posesYellow cmd) (yellowCones this2)
                       (this2\<lparr>blueCones := blue\<rparr>) of
                  (yellow, this3) \<Rightarrow> this3\<lparr>yellowCones := yellow\<rparr>)))"

subsection \<open>renderFrame: camera\<close>

text \<open>
  \<open>// Set camera for fixed views\<close>. The index is compared with the number of camera objects
  held in \<open>robotCameras\<close>. In orbit mode index \<open>-1\<close> resets \<open>wpilibCoordinateGroup\<close> to the
  default origin, and any other negative index re-centres it on the robot when one is
  loaded. In the fixed branch \<open>robotConfig.cameras[cameraIndex]\<close> is read; when the catalog
  entry declares fewer cameras the result is \<open>undefined\<close> and reading its \<open>resolution\<close> raises
  a TypeError, which ends the frame (and the render loop, whose next tick is requested only
  after \<open>renderFrame\<close> returns). \<open>controls.update()\<close> may dispatch the change event of the
  orbit controls; nothing later in the frame reads \<open>shouldRender\<close>, so that event is the
  session event \<open>ControlsChange\<close> right after the frame.
\<close>

definition setCamera :: "Config3d_Robot \<Rightarrow> Visualizer \<Rightarrow> error + Visualizer" where
  "setCamera robotConfig this =
     (let this1 = (if cameraIndex this \<ge> int (length (robotCameras this))
                   then this\<lparr>cameraIndex := - 1\<rparr> else this);
          orbitalCamera = (cameraIndex this1 < 0);
          this2 = (if orbitalCamera \<noteq> controlsEnabled this1
                   then this1\<lparr>controlsEnabled := orbitalCamera\<rparr> else this1)
      in if orbitalCamera
         then Inr ((if cameraIndex this2 = - 1
                    then this2\<lparr>coordinateGroupOrigin := DefaultOrigin\<rparr>
                    else (case robot this2 of
                            Some r \<Rightarrow> this2\<lparr>coordinateGroupOrigin := RobotRelative r\<rparr>
                          | None \<Rightarrow> this2))
                   \<lparr>canvasFixed := False, lastCameraIndex := cameraIndex this2\<rparr>)
         else if nat (cameraIndex this2) < length (cameras robotConfig)
              then Inr (this2\<lparr>canvasFixed := True, lastCameraIndex := cameraIndex this2\<rparr>)
              else Inl TypeError)"

subsection \<open>renderFrame\<close>

text \<open>
  The part of the frame after \<open>// Get config\<close>, for a command whose field and robot are in
  the catalog.
\<close>

definition drawFrame ::
  "(real \<Rightarrow> string \<Rightarrow> string \<Rightarrow> real) \<Rightarrow> Window \<Rightarrow> Command \<Rightarrow> Config3d_Field \<Rightarrow> Config3d_Robot
     \<Rightarrow> Visualizer \<Rightarrow> error + Visualizer"
where
  "drawFrame convert window cmd fieldConfig robotConfig this =
     (let newFrcData = (frcData window \<noteq> lastFrcDataString this);
          this1 = (if newFrcData then this\<lparr>lastFrcDataString := frcData window\<rparr> else this);
          this2 = addField (optionsField cmd) fieldConfig this1;
          this3 = addRobot (optionsRobot cmd) robotConfig newFrcData this2;
          this4 = updateFieldCoordinates convert fieldConfig (optionsAlliance cmd) this3;
          this5 = setRobotPosition cmd this4;
          this6 = updateAllCones cmd this5
      in setCamera robotConfig this6)"

text \<open>\<open>window.frcData?.field3ds.find(...)\<close> and \<open>window.frcData?.robots.find(...)\<close>\<close>

definition findFieldConfig :: "Window \<Rightarrow> string \<Rightarrow> Config3d_Field option" where
  "findFieldConfig window fieldTitle =
     (case frcData window of
        None \<Rightarrow> None
      | Some d \<Rightarrow> find (\<lambda>fieldData. fTitle fieldData = fieldTitle) (field3ds d))"

definition findRobotConfig :: "Window \<Rightarrow> string \<Rightarrow> Config3d_Robot option" where
  "findRobotConfig window robotTitle =
     (case frcData window of
        None \<Rightarrow> None
      | Some d \<Rightarrow> find (\<lambda>robotData. rTitle robotData = robotTitle) (robots d))"

definition renderFrame ::
  "(real \<Rightarrow> string \<Rightarrow> string \<Rightarrow> real) \<Rightarrow> Window \<Rightarrow> Visualizer \<Rightarrow> error + Visualizer"
where
  "renderFrame convert window this0 =
     (let this = checkSize window (checkRenderMode window this0)
      in case command this of
           None \<Rightarrow> Inr this
         | Some cmd \<Rightarrow>
             if hidden window then Inr this
             else if preferences window = Some ''efficiency''
                     \<and> now window - lastFrameTime this < 1000 / EFFICIENCY_MAX_FPS
                  then Inr this
             else if \<not> shouldRender this then Inr this
             else
               (let this' = this\<lparr>lastFrameTime := now window, shouldRender := False\<rparr>
                in case (findFieldConfig window (optionsField cmd),
                         findRobotConfig window (optionsRobot cmd)) of
                     (Some fieldConfig, Some robotConfig) \<Rightarrow>
                       drawFrame convert window cmd fieldConfig robotConfig this'
                   | _ \<Rightarrow> Inr this'))"

subsection \<open>Sessions\<close>

text \<open>
  What can happen to a visualizer after its constructor: a call of \<open>render\<close> or
  \<open>set3DCamera\<close>, a tick of the render loop, the completion or failure of a load in flight,
  and a change event of the orbit controls.
\<close>

datatype Event =
    Render "Command option"
  | Set3DCamera int
  | Frame Window
  | LoadComplete nat
  | LoadFailed nat
  | ControlsChange

fun step ::
  "(real \<Rightarrow> string \<Rightarrow> string \<Rightarrow> real) \<Rightarrow> Event \<Rightarrow> Visualizer \<Rightarrow> error + Visualizer"
where
  "step convert (Render cmd) this = Inr (render cmd this)"
| "step convert (Set3DCamera index) this = Inr (set3DCamera index this)"
| "step convert (Frame window) this = renderFrame convert window this"
| "step convert (LoadComplete k) this = Inr (loadComplete convert k this)"
| "step convert (LoadFailed k) this = Inr (loadFailed k this)"
| "step convert ControlsChange this = Inr (controlsChange this)"

fun run ::
  "(real \<Rightarrow> string \<Rightarrow> string \<Rightarrow> real) \<Rightarrow> Event list \<Rightarrow> Visualizer \<Rightarrow> error + Visualizer"
where
  "run convert [] this = Inr this"
| "run convert (e # es) this =
     (case step convert e this of Inl err \<Rightarrow> Inl err | Inr this' \<Rightarrow> run convert es this')"


section \<open>Notions used to state the properties\<close>

subsection \<open>Heatmap filter\<close>

text \<open>
  For each sample of the list, whether the filter loop pushes its value; \<open>lastTimestamp\<close>
  is the loop variable of that name.
\<close>

fun keepFlags :: "real \<Rightarrow> HeatmapSample list \<Rightarrow> bool list" where
  "keepFlags lastTimestamp [] = []"
| "keepFlags lastTimestamp (sample # rest) =
     (if timestamp sample = lastTimestamp \<or> timestamp sample - lastTimestamp \<ge> HEATMAP_DT
      then True # keepFlags (timestamp sample) rest
      else False # keepFlags lastTimestamp rest)"

text \<open>
  The timestamp of the nearest kept sample before position \<open>i\<close>, or \<open>start\<close> when no sample
  before \<open>i\<close> is kept.
\<close>

definition previousKept :: "real \<Rightarrow> bool list \<Rightarrow> HeatmapSample list \<Rightarrow> nat \<Rightarrow> real" where
  "previousKept start flags heatmapData i =
     (case filter (\<lambda>j. flags ! j) [0..<i] of
        [] \<Rightarrow> start
      | j # js \<Rightarrow> timestamp (heatmapData ! last (j # js)))"

text \<open>The values of the samples that are flagged, in order.\<close>

definition keptValues :: "bool list \<Rightarrow> HeatmapSample list \<Rightarrow> Translation2d list" where
  "keptValues flags heatmapData =
     map (\<lambda>p. value' (snd p)) (filter fst (zip flags heatmapData))"

subsection \<open>Heatmap resampling\<close>


subsection \<open>Scene\<close>

definition negate :: "vec3 \<Rightarrow> vec3" where
  "negate v = (case v of (x, y, z) \<Rightarrow> (- x, - y, - z))"

fun isRobotLoad :: "Load \<Rightarrow> bool" where
  "isRobotLoad (RobotLoad robotConfig) = True"
| "isRobotLoad (FieldLoad fieldConfig) = False"

text \<open>The state in which a frame that passes every early return starts to draw.\<close>

definition prepared :: "Window \<Rightarrow> Visualizer \<Rightarrow> Visualizer" where
  "prepared window this =
     (checkSize window (checkRenderMode window this))
       \<lparr>lastFrameTime := now window, shouldRender := False\<rparr>"

text \<open>
  The frame passes every early return of \<open>renderFrame\<close>: a command is set, the view is not
  hidden, the efficiency throttle does not hold it back, a render is pending, and the
  command's field and robot are in the catalog.
\<close>

definition frameDrawn ::
  "Window \<Rightarrow> Visualizer \<Rightarrow> Command \<Rightarrow> Config3d_Field \<Rightarrow> Config3d_Robot \<Rightarrow> bool"
where
  "frameDrawn window this cmd fieldConfig robotConfig =
     (command this = Some cmd
      \<and> \<not> hidden window
      \<and> \<not> (preferences window = Some ''efficiency''
             \<and> now window - lastFrameTime this < 1000 / EFFICIENCY_MAX_FPS)
      \<and> shouldRender (checkSize window (checkRenderMode window this))
      \<and> findFieldConfig window (optionsField cmd) = Some fieldConfig
      \<and> findRobotConfig window (optionsRobot cmd) = Some robotConfig)"




definition coneIds :: "Visualizer \<Rightarrow> nat set" where
  "coneIds this = set (greenCones this) \<union> set (blueCones this) \<union> set (yellowCones this)"

text \<open>
  What every session keeps true of the scene: a group lists no child twice, identities in
  use are below the next fresh one, the robot group is not a cone, and it is attached only
  when the robot was last recorded visible.
\<close>

definition sceneInvariant :: "Visualizer \<Rightarrow> bool" where
  "sceneInvariant this =
     (distinct (wpilibCoordinateGroup this)
      \<and> distinct (wpilibFieldCoordinateGroup this)
      \<and> (\<forall>c \<in> set (wpilibFieldCoordinateGroup this). c < nextId this)
      \<and> (\<forall>c \<in> coneIds this. c < nextId this)
      \<and> (\<forall>r. robot this = Some r \<longrightarrow>
             r < nextId this \<and> r \<notin> coneIds this
             \<and> (r \<in> set (wpilibFieldCoordinateGroup this) \<longrightarrow> lastRobotVisible this)))"

subsection \<open>An example catalog and example sessions\<close>

definition exampleField :: Config3d_Field where
  "exampleField = \<lparr>fTitle = ''F'', fPath = ''f.glb'', fRotations = [],
     widthInches = 648, heightInches = 324\<rparr>"

definition exampleField2 :: Config3d_Field where
  "exampleField2 = \<lparr>fTitle = ''G'', fPath = ''g.glb'', fRotations = [],
     widthInches = 648, heightInches = 324\<rparr>"

definition exampleCamera :: Config3d_Camera where
  "exampleCamera = \<lparr>cName = ''front'', cRotations = [], cPosition = (0, 0, 1),
     resolution = (1280, 720), fov = 60\<rparr>"

definition robotA :: Config3d_Robot where
  "robotA = \<lparr>rTitle = ''A'', rPath = ''a.glb'', rRotations = [], rPosition = (0, 0, 0),
     cameras = [exampleCamera, exampleCamera]\<rparr>"

definition robotB :: Config3d_Robot where
  "robotB = \<lparr>rTitle = ''B'', rPath = ''b.glb'', rRotations = [], rPosition = (0, 0, 0),
     cameras = []\<rparr>"

definition exampleCatalog :: FRCData where
  "exampleCatalog = \<lparr>field3ds = [exampleField, exampleField2], robots = [robotA, robotB]\<rparr>"

definition exampleWindow :: Window where
  "exampleWindow = \<lparr>preferences = None, frcData = Some exampleCatalog, clientWidth = 800,
     clientHeight = 400, devicePixelRatio = 1, isDark = False, hidden = False, now = 0\<rparr>"

definition examplePose :: Pose3d where
  "examplePose = \<lparr>posePosition = (1, 2, 3), poseRotation = (2 / 9, 4 / 9, 5 / 9, 2 / 3)\<rparr>"

definition exampleCommand :: "string \<Rightarrow> string \<Rightarrow> string \<Rightarrow> Pose3d option \<Rightarrow> Command" where
  "exampleCommand f r a p = \<lparr>optionsField = f, optionsRobot = r, optionsAlliance = a,
     posesRobot = p, posesGreen = [], posesBlue = [], posesYellow = []\<rparr>"

text \<open>Robot A is requested and its model arrives (the field load is still in flight).\<close>

definition robotSession :: "Event list" where
  "robotSession =
     [Render (Some (exampleCommand ''F'' ''A'' ''blue'' (Some examplePose))),
      Frame exampleWindow, LoadComplete 1]"

text \<open>Robot A is requested and then robot B, before either model has arrived.\<close>

definition staleSession :: "Event list" where
  "staleSession =
     [Render (Some (exampleCommand ''F'' ''A'' ''blue'' (Some examplePose))),
      Frame exampleWindow,
      Render (Some (exampleCommand ''F'' ''B'' ''blue'' (Some examplePose))),
      Frame exampleWindow]"

text \<open>Field F and robot A are requested, both models arrive, and a frame shows the robot.\<close>

definition shownSession :: "Event list" where
  "shownSession =
     [Render (Some (exampleCommand ''F'' ''A'' ''blue'' (Some examplePose))),
      Frame exampleWindow, LoadComplete 0, LoadComplete 0, Frame exampleWindow]"


section \<open>Properties of the extraction engine\<close>

subsection \<open>Point roles\<close>

lemma poseTriples_map:
  "poseTriples c ud ur v i =
   map (\<lambda>k. poseAt c ud ur v (i + 3 * k)) [0..<(length v - i + 2) div 3]"
proof (induction c ud ur v i rule: poseTriples.induct)
  case (1 c ud ur v i)
  show ?case
  proof (cases "i < length v")
    case False
    then have "(length v - i + 2) div 3 = 0" by simp
    with False show ?thesis by (simp add: poseTriples.simps [of c ud ur v i])
  next
    case True
    then have n: "(length v - i + 2) div 3 = Suc ((length v - (i + 3) + 2) div 3)"
      by presburger
    have "map (\<lambda>k. poseAt c ud ur v (i + 3 * k)) [0..<Suc ((length v - (i + 3) + 2) div 3)]
          = poseAt c ud ur v i
            # map (\<lambda>k. poseAt c ud ur v (i + 3 + 3 * k)) [0..<(length v - (i + 3) + 2) div 3]"
      by (simp add: upt_conv_Cons map_Suc_upt [symmetric] del: upt_Suc add: algebra_simps)
    with True n "1.IH" [OF True] show ?thesis
      by (simp add: poseTriples.simps [of c ud ur v i])
  qed
qed

text \<open>
  Claim C6. Let the store hold a sample \<open>v\<close> at or before the evaluation time. If \<open>v\<close> has
  length 2, decoding gives exactly one pose, with the converted pair as translation and
  rotation 0. If the length of \<open>v\<close> is a multiple of 3, decoding gives one pose for each
  consecutive triple (x, y, heading), in order. For every other length the pose list is
  empty.
\<close>

theorem getCurrentValue_decodes:
  assumes "logData = Some ld" and "timestamps ld = t0 # ts" and "t0 \<le> time"
    and "values' ld = v # vs"
  shows "(length v = 2 \<longrightarrow>
            getCurrentValue c ud ur logData time =
              Inr [\<lparr>translation = (c (v ! 0) ud ''meters'', c (v ! 1) ud ''meters''),
                    rotation = 0\<rparr>])
       \<and> (length v mod 3 = 0 \<longrightarrow>
            getCurrentValue c ud ur logData time =
              Inr (map (\<lambda>k. \<lparr>translation = (c (v ! (3 * k)) ud ''meters'',
                                              c (v ! (3 * k + 1)) ud ''meters''),
                               rotation = c (v ! (3 * k + 2)) ur ''radians''\<rparr>)
                     [0..<length v div 3]))
       \<and> (length v \<noteq> 2 \<and> length v mod 3 \<noteq> 0 \<longrightarrow>
            getCurrentValue c ud ur logData time = Inr [])"
proof -
  have two: "length v = 2 \<Longrightarrow> length v mod 3 \<noteq> 0" by presburger
  have cnt: "length v mod 3 = 0 \<Longrightarrow> (length v + 2) div 3 = length v div 3" by presburger
  show ?thesis
    using assms two cnt
    by (auto simp: getCurrentValue_def poseTriples_map poseAt_def)
qed

theorem getCurrentValue_decodes_witness:
  "getCurrentValue (\<lambda>x from to. x) ''meters'' ''radians''
     (Some \<lparr>timestamps = [1], values' = [[1, 2, 3, 4, 5, 6]]\<rparr>) 2
   = Inr [\<lparr>translation = (1, 2), rotation = 3\<rparr>, \<lparr>translation = (4, 5), rotation = 6\<rparr>]
   \<and> getCurrentValue (\<lambda>x from to. x) ''meters'' ''radians''
     (Some \<lparr>timestamps = [1], values' = [[7, 8]]\<rparr>) 2
   = Inr [\<lparr>translation = (7, 8), rotation = 0\<rparr>]
   \<and> getCurrentValue (\<lambda>x from to. x) ''meters'' ''radians''
     (Some \<lparr>timestamps = [1], values' = [[1, 2, 3, 4, 5, 6, 7, 8, 9, 10, 11, 12, 13, 14]]\<rparr>) 2
   = Inr []"
  using getCurrentValue_decodes
    [of "Some \<lparr>timestamps = [1], values' = [[1, 2, 3, 4, 5, 6]]\<rparr>"
        "\<lparr>timestamps = [1], values' = [[1, 2, 3, 4, 5, 6]]\<rparr>" 1 "[]" 2 "[1, 2, 3, 4, 5, 6]" "[]"
        "\<lambda>x from to. x" "''meters''" "''radians''"]
    getCurrentValue_decodes
    [of "Some \<lparr>timestamps = [1], values' = [[7, 8]]\<rparr>"
        "\<lparr>timestamps = [1], values' = [[7, 8]]\<rparr>" 1 "[]" 2 "[7, 8]" "[]"
        "\<lambda>x from to. x" "''meters''" "''radians''"]
    getCurrentValue_decodes
    [of "Some \<lparr>timestamps = [1],
                 values' = [[1, 2, 3, 4, 5, 6, 7, 8, 9, 10, 11, 12, 13, 14]]\<rparr>"
        "\<lparr>timestamps = [1], values' = [[1, 2, 3, 4, 5, 6, 7, 8, 9, 10, 11, 12, 13, 14]]\<rparr>"
        1 "[]" 2 "[1, 2, 3, 4, 5, 6, 7, 8, 9, 10, 11, 12, 13, 14]" "[]"
        "\<lambda>x from to. x" "''meters''" "''radians''"]
  by (simp add: upt_conv_Cons)

text \<open>No sample at or before the evaluation time, or no data at all, decodes to nothing.\<close>

lemma getCurrentValue_no_sample:
  "getCurrentValue c ud ur None time = Inr []"
  "time < t0 \<Longrightarrow> getCurrentValue c ud ur (Some \<lparr>timestamps = t0 # ts, values' = vs\<rparr>) time = Inr []"
  by (simp_all add: getCurrentValue_def)

subsection \<open>Robot trails\<close>



subsection \<open>Heatmap resampling\<close>










subsection \<open>Heatmap minimum-spacing filter\<close>

lemma keepFlags_length: "length (keepFlags l xs) = length xs"
  by (induction xs arbitrary: l) auto

lemma foldl_filterStep:
  "fst (foldl filterStep (vs, l) xs) = vs @ keptValues (keepFlags l xs) xs"
  by (induction xs arbitrary: vs l) (auto simp: filterStep_def keptValues_def)

lemma filter_upt_Suc:
  "filter (\<lambda>j. (f # fs) ! j) [0..<Suc i] =
     (if f then [0] else []) @ map Suc (filter (\<lambda>j. fs ! j) [0..<i])"
proof -
  have "[0..<Suc i] = 0 # map Suc [0..<i]"
    by (simp add: upt_conv_Cons map_Suc_upt del: upt_Suc)
  then show ?thesis by (simp add: filter_map comp_def del: upt_Suc)
qed

lemma previousKept_Suc:
  "previousKept l (f # fs) (x # xs) (Suc i) =
     previousKept (if f then timestamp x else l) fs xs i"
  unfolding previousKept_def filter_upt_Suc
  by (cases "filter (\<lambda>j. fs ! j) [0..<i]") (auto simp: last_map)

lemma keepFlags_rule:
  "i < length xs \<Longrightarrow>
   keepFlags l xs ! i =
     (timestamp (xs ! i) = previousKept l (keepFlags l xs) xs i
      \<or> timestamp (xs ! i) - previousKept l (keepFlags l xs) xs i \<ge> HEATMAP_DT)"
proof (induction xs arbitrary: l i)
  case Nil
  then show ?case by simp
next
  case (Cons x xs)
  show ?case
  proof (cases i)
    case 0
    then show ?thesis by (simp add: previousKept_def)
  next
    case (Suc k)
    with Cons.prems have k: "k < length xs" by simp
    show ?thesis
      using Cons.IH [OF k] Suc
      by (simp add: previousKept_Suc)
  qed
qed

text \<open>
  Claim C4, as the code has it. For a list of heatmap samples sorted by timestamp, the
  filter decides for each sample whether to keep it, and returns the values of the kept
  samples in order. A sample is kept if and only if its timestamp equals the reference
  timestamp or is at least \<open>dt\<close> after it, where the reference is the timestamp of the
  nearest kept sample before it, and 0 when no earlier sample was kept. So a sample that
  shares the timestamp of the previously kept one is kept, and the first sample is kept
  only when its timestamp is 0 or at least \<open>dt\<close>.
\<close>

theorem heatmap_filter_rule:
  assumes "sorted (map timestamp heatmapData)"
  shows "length (keepFlags 0 heatmapData) = length heatmapData
       \<and> filterHeatmap heatmapData = keptValues (keepFlags 0 heatmapData) heatmapData
       \<and> (\<forall>i<length heatmapData.
             keepFlags 0 heatmapData ! i =
               (timestamp (heatmapData ! i) = previousKept 0 (keepFlags 0 heatmapData) heatmapData i
                \<or> timestamp (heatmapData ! i)
                     - previousKept 0 (keepFlags 0 heatmapData) heatmapData i \<ge> HEATMAP_DT))"
proof -
  have "sort_key timestamp heatmapData = heatmapData"
    using assms by (rule sort_key_id_if_sorted)
  then have "filterHeatmap heatmapData = keptValues (keepFlags 0 heatmapData) heatmapData"
    using foldl_filterStep [of "[]" 0 heatmapData] by (simp add: filterHeatmap_def)
  then show ?thesis
    using keepFlags_rule [of _ heatmapData 0] by (simp add: keepFlags_length)
qed

theorem heatmap_filter_rule_witness:
  "sorted (map timestamp
     [\<lparr>timestamp = 0.05, value' = (1, 1)\<rparr>, \<lparr>timestamp = 1, value' = (2, 2)\<rparr>,
      \<lparr>timestamp = 1, value' = (3, 3)\<rparr>, \<lparr>timestamp = 1.05, value' = (4, 4)\<rparr>,
      \<lparr>timestamp = 1.1, value' = (5, 5)\<rparr>])
   \<and> filterHeatmap
     [\<lparr>timestamp = 0.05, value' = (1, 1)\<rparr>, \<lparr>timestamp = 1, value' = (2, 2)\<rparr>,
      \<lparr>timestamp = 1, value' = (3, 3)\<rparr>, \<lparr>timestamp = 1.05, value' = (4, 4)\<rparr>,
      \<lparr>timestamp = 1.1, value' = (5, 5)\<rparr>]
     = [(2, 2), (3, 3), (5, 5)]"
proof -
  have s: "sorted (map timestamp
     [\<lparr>timestamp = 0.05, value' = (1, 1)\<rparr>, \<lparr>timestamp = 1, value' = (2, 2)\<rparr>,
      \<lparr>timestamp = 1, value' = (3, 3)\<rparr>, \<lparr>timestamp = 1.05, value' = (4, 4)\<rparr>,
      \<lparr>timestamp = 1.1, value' = (5, 5)\<rparr>])"
    by simp
  from heatmap_filter_rule [OF s] s show ?thesis
    by (simp add: keptValues_def HEATMAP_DT_def)
qed

text \<open>
  The claim as the specification words it fails twice: a second sample with the same
  timestamp as the kept first one is kept although it is closer than \<open>dt\<close> to it, and a
  first sample stamped 0.05 is dropped.
\<close>

theorem heatmap_filter_rule_counterexample:
  "filterHeatmap [\<lparr>timestamp = 1, value' = (1, 1)\<rparr>, \<lparr>timestamp = 1, value' = (2, 2)\<rparr>]
     = [(1, 1), (2, 2)]
   \<and> filterHeatmap [\<lparr>timestamp = 0.05, value' = (1, 1)\<rparr>] = []"
  by (simp add: filterHeatmap_def filterStep_def HEATMAP_DT_def)

section \<open>Properties of the 3D visualizer\<close>

subsection \<open>Rotation sequences\<close>

lemma getQuaternionFromRotSeq_snoc:
  "getQuaternionFromRotSeq cv (rots @ [r]) =
     multiplyQuaternions (unitRotation cv r) (getQuaternionFromRotSeq cv rots)"
  by (simp add: getQuaternionFromRotSeq_def premultiply_def)

lemma rotate_newQuaternion: "rotateTranslationByRotation p newQuaternion = p"
  by (cases p) (simp add: rotateTranslationByRotation_def newQuaternion_def
      multiplyQuaternions_def invert_def Let_def)

lemma rotate_multiply:
  "rotateTranslationByRotation p (multiplyQuaternions a b) =
     rotateTranslationByRotation (rotateTranslationByRotation p b) a"
  by (cases p) (simp add: rotateTranslationByRotation_def multiplyQuaternions_def invert_def
      Let_def algebra_simps)

lemma rotate_rotseq:
  "rotateTranslationByRotation p (getQuaternionFromRotSeq cv rots) =
     foldl (\<lambda>p' r. rotateTranslationByRotation p' (unitRotation cv r)) p rots"
proof (induction rots rule: rev_induct)
  case Nil
  then show ?case by (simp add: getQuaternionFromRotSeq_def rotate_newQuaternion)
next
  case (snoc r rots)
  then show ?case by (simp add: getQuaternionFromRotSeq_snoc rotate_multiply)
qed

lemma unitRotation_x180:
  "unitRotation convertUnits \<lparr>axis = ''x'', degrees = 180\<rparr>
     = \<lparr>qx = 1, qy = 0, qz = 0, qw = 0\<rparr>"
  by (simp add: unitRotation_def convertUnits_def setFromAxisAngle_def axisVector_def)

lemma unitRotation_y90:
  "unitRotation convertUnits \<lparr>axis = ''y'', degrees = 90\<rparr>
     = \<lparr>qx = 0, qy = sqrt 2 / 2, qz = 0, qw = sqrt 2 / 2\<rparr>"
proof -
  have "90 * pi / 180 / 2 = pi / 4" by simp
  then show ?thesis
    by (simp add: unitRotation_def convertUnits_def setFromAxisAngle_def axisVector_def
        sin_45 cos_45)
qed

text \<open>
  Claim C3, as the code has it. The utility pre-multiplies the unit rotations in list
  order: each listed rotation is multiplied onto the left of what the earlier ones gave, so
  the orientation is \<open>u\<^sub>n \<dots> u\<^sub>2 u\<^sub>1\<close>. Applied to a point, the first listed rotation acts
  first and the last listed one acts last.
\<close>

theorem getQuaternionFromRotSeq_order:
  "getQuaternionFromRotSeq convert (rotations @ [rot]) =
     multiplyQuaternions (unitRotation convert rot) (getQuaternionFromRotSeq convert rotations)
   \<and> rotateTranslationByRotation p (getQuaternionFromRotSeq convert rotations) =
       foldl (\<lambda>p' r. rotateTranslationByRotation p' (unitRotation convert r)) p rotations"
  using getQuaternionFromRotSeq_snoc rotate_rotseq by blast

theorem getQuaternionFromRotSeq_order_witness:
  "rotateTranslationByRotation (1, 0, 0)
     (getQuaternionFromRotSeq convertUnits
        [\<lparr>axis = ''x'', degrees = 180\<rparr>, \<lparr>axis = ''y'', degrees = 90\<rparr>])
   = rotateTranslationByRotation
       (rotateTranslationByRotation (1, 0, 0)
          (unitRotation convertUnits \<lparr>axis = ''x'', degrees = 180\<rparr>))
       (unitRotation convertUnits \<lparr>axis = ''y'', degrees = 90\<rparr>)"
  using getQuaternionFromRotSeq_order
    [of convertUnits "[\<lparr>axis = ''x'', degrees = 180\<rparr>, \<lparr>axis = ''y'', degrees = 90\<rparr>]"
        "\<lparr>axis = ''z'', degrees = 0\<rparr>" "(1, 0, 0)"]
  by simp

text \<open>
  The claim as the specification words it fails for a half-turn about x followed by a
  quarter-turn about y. The code's orientation takes the point (1, 0, 0) to (0, 0, -1),
  which is the half-turn applied first and the quarter-turn last; pre-multiplying in reverse
  list order, with the first listed rotation applied last, takes it to (0, 0, 1).
\<close>

theorem getQuaternionFromRotSeq_order_counterexample:
  "rotateTranslationByRotation (1, 0, 0)
     (getQuaternionFromRotSeq convertUnits
        [\<lparr>axis = ''x'', degrees = 180\<rparr>, \<lparr>axis = ''y'', degrees = 90\<rparr>]) = (0, 0, - 1)
   \<and> rotateTranslationByRotation (1, 0, 0)
     (premultiplyReverseOrder convertUnits
        [\<lparr>axis = ''x'', degrees = 180\<rparr>, \<lparr>axis = ''y'', degrees = 90\<rparr>]) = (0, 0, 1)
   \<and> rotateTranslationByRotation
       (rotateTranslationByRotation (1, 0, 0)
          (unitRotation convertUnits \<lparr>axis = ''y'', degrees = 90\<rparr>))
       (unitRotation convertUnits \<lparr>axis = ''x'', degrees = 180\<rparr>) = (0, 0, 1)
   \<and> getQuaternionFromRotSeq convertUnits
        [\<lparr>axis = ''x'', degrees = 180\<rparr>, \<lparr>axis = ''y'', degrees = 90\<rparr>]
     \<noteq> premultiplyReverseOrder convertUnits
        [\<lparr>axis = ''x'', degrees = 180\<rparr>, \<lparr>axis = ''y'', degrees = 90\<rparr>]"
  by (simp add: getQuaternionFromRotSeq_def premultiplyReverseOrder_def premultiply_def
      unitRotation_x180 unitRotation_y90 rotateTranslationByRotation_def
      multiplyQuaternions_def invert_def newQuaternion_def Let_def)


subsection \<open>Scene graph and cones\<close>

lemma distinct_add: "distinct cs \<Longrightarrow> distinct (add x cs)"
  by (simp add: add_def)

lemma set_add: "set (add x cs) = insert x (set cs)"
  by (auto simp: add_def dest: notin_set_remove1 intro: in_set_remove1 [THEN iffD2])

lemma distinct_remove: "distinct cs \<Longrightarrow> distinct (remove x cs)"
  by (simp add: remove_def)

lemma set_remove: "distinct cs \<Longrightarrow> set (remove x cs) = set cs - {x}"
  by (simp add: remove_def)

lemma set_remove_subset: "set (remove x cs) \<subseteq> set cs"
  by (simp add: remove_def set_remove1_subset)

lemma in_remove_other: "y \<noteq> x \<Longrightarrow> y \<in> set (remove x cs) \<longleftrightarrow> y \<in> set cs"
  by (simp add: remove_def)

lemma removeExtraCones_props:
  "removeExtraCones n arr ch = (arr', ch') \<Longrightarrow>
   set arr' \<subseteq> set arr \<and> set ch' \<subseteq> set ch \<and> (distinct ch \<longrightarrow> distinct ch')
   \<and> (\<forall>x. x \<notin> set arr \<longrightarrow> (x \<in> set ch' \<longleftrightarrow> x \<in> set ch))"
proof (induction n arr ch rule: removeExtraCones.induct)
  case (1 n arr ch)
  show ?case
  proof (cases "n < length arr")
    case False
    with "1.prems" show ?thesis by (simp add: removeExtraCones.simps [of n arr ch])
  next
    case True
    then have ne: "arr \<noteq> []" by auto
    from True "1.prems"
    have rec: "removeExtraCones n (butlast arr) (remove (last arr) ch) = (arr', ch')"
      by (simp add: removeExtraCones.simps [of n arr ch])
    note ih = "1.IH" [OF True rec]
    have sub: "set (butlast arr) \<subseteq> set arr" by (auto dest: in_set_butlastD)
    have lastin: "last arr \<in> set arr" using ne by simp
    have mem: "\<And>x. x \<notin> set arr \<Longrightarrow> (x \<in> set ch' \<longleftrightarrow> x \<in> set ch)"
    proof -
      fix x assume x: "x \<notin> set arr"
      then have "x \<notin> set (butlast arr)" using sub by auto
      with ih have "x \<in> set ch' \<longleftrightarrow> x \<in> set (remove (last arr) ch)" by blast
      moreover have "x \<noteq> last arr" using x lastin by auto
      ultimately show "x \<in> set ch' \<longleftrightarrow> x \<in> set ch" by (simp add: in_remove_other)
    qed
    from ih sub set_remove_subset [of "last arr" ch] distinct_remove [of ch "last arr"] mem
    show ?thesis by blast
  qed
qed

lemma addNewCones_props:
  "addNewCones n arr ch objs nx = (arr', ch', objs', nx') \<Longrightarrow>
   nx \<le> nx' \<and> set arr' = set arr \<union> {nx..<nx'} \<and> set ch' = set ch \<union> {nx..<nx'}
   \<and> (distinct ch \<longrightarrow> distinct ch') \<and> (\<forall>x<nx. objs' x = objs x)"
proof (induction n arr ch objs nx rule: addNewCones.induct)
  case (1 n arr ch objs nx)
  show ?case
  proof (cases "n > length arr")
    case False
    with "1.prems" show ?thesis by (simp add: addNewCones.simps [of n arr ch objs nx])
  next
    case True
    from True "1.prems"
    have rec: "addNewCones n (arr @ [nx]) (add nx ch) (objs(nx \<mapsto> newObject3D)) (nx + 1)
                 = (arr', ch', objs', nx')"
      by (simp add: addNewCones.simps [of n arr ch objs nx])
    note ih = "1.IH" [OF True rec]
    from ih have le: "nx + 1 \<le> nx'" by simp
    then have iv: "{nx..<nx'} = insert nx {nx + 1..<nx'}" by auto
    from ih iv le show ?thesis
      by (auto simp: set_add distinct_add)
  qed
qed

lemma setConePoses_other:
  "x \<notin> set arr \<Longrightarrow> setConePoses pd arr objs x = objs x"
  by (induction pd arr objs rule: setConePoses.induct) (auto simp: setPose_def)

lemma updateCones_props:
  assumes "updateCones pd arr s = (arr', s')"
  shows "s' = s\<lparr>wpilibFieldCoordinateGroup := wpilibFieldCoordinateGroup s',
                objects := objects s', nextId := nextId s'\<rparr>"
    and "nextId s \<le> nextId s'"
    and "set arr' \<subseteq> set arr \<union> {nextId s..<nextId s'}"
    and "set (wpilibFieldCoordinateGroup s')
           \<subseteq> set (wpilibFieldCoordinateGroup s) \<union> {nextId s..<nextId s'}"
    and "distinct (wpilibFieldCoordinateGroup s) \<Longrightarrow> distinct (wpilibFieldCoordinateGroup s')"
    and "x \<notin> set arr \<Longrightarrow> x < nextId s \<Longrightarrow>
           (x \<in> set (wpilibFieldCoordinateGroup s') \<longleftrightarrow> x \<in> set (wpilibFieldCoordinateGroup s))
           \<and> objects s' x = objects s x"
proof -
  obtain arr1 ch1 where
    r: "removeExtraCones (length pd) arr (wpilibFieldCoordinateGroup s) = (arr1, ch1)"
    by (cases "removeExtraCones (length pd) arr (wpilibFieldCoordinateGroup s)") auto
  obtain arr2 ch2 objs2 nx2 where
    a: "addNewCones (length pd) arr1 ch1 (objects s) (nextId s) = (arr2, ch2, objs2, nx2)"
    by (cases "addNewCones (length pd) arr1 ch1 (objects s) (nextId s)") auto
  from assms r a have arr': "arr' = arr2"
    and s': "s' = s\<lparr>wpilibFieldCoordinateGroup := ch2,
                     objects := setConePoses pd arr2 objs2, nextId := nx2\<rparr>"
    by (auto simp: updateCones_def)
  note rp = removeExtraCones_props [OF r]
  note ap = addNewCones_props [OF a]
  show "s' = s\<lparr>wpilibFieldCoordinateGroup := wpilibFieldCoordinateGroup s',
                objects := objects s', nextId := nextId s'\<rparr>"
    by (simp add: s')
  show "nextId s \<le> nextId s'" using ap by (simp add: s')
  show "set arr' \<subseteq> set arr \<union> {nextId s..<nextId s'}"
    using rp ap by (auto simp: s' arr')
  show "set (wpilibFieldCoordinateGroup s')
           \<subseteq> set (wpilibFieldCoordinateGroup s) \<union> {nextId s..<nextId s'}"
    using rp ap by (auto simp: s')
  show "distinct (wpilibFieldCoordinateGroup s')" if "distinct (wpilibFieldCoordinateGroup s)"
    using that rp ap by (simp add: s')
  show "(x \<in> set (wpilibFieldCoordinateGroup s') \<longleftrightarrow> x \<in> set (wpilibFieldCoordinateGroup s))
           \<and> objects s' x = objects s x" if x: "x \<notin> set arr" "x < nextId s"
  proof -
    have "x \<notin> set arr2" using x rp ap by auto
    then have "setConePoses pd arr2 objs2 x = objs2 x" by (rule setConePoses_other)
    moreover have "objs2 x = objects s x" using ap x by simp
    moreover have "x \<in> set ch2 \<longleftrightarrow> x \<in> set (wpilibFieldCoordinateGroup s)"
      using x rp ap by auto
    ultimately show ?thesis by (simp add: s')
  qed
qed

lemma grow_trans:
  fixes n :: nat
  assumes "n \<le> n1" and "n1 \<le> n2" and "B \<subseteq> A \<union> {n..<n1}" and "C \<subseteq> B \<union> {n1..<n2}"
  shows "C \<subseteq> A \<union> {n..<n2}"
proof
  fix x assume "x \<in> C"
  with assms(4) have "x \<in> B \<or> x \<in> {n1..<n2}" by auto
  then show "x \<in> A \<union> {n..<n2}"
  proof
    assume "x \<in> B"
    with assms(3) have "x \<in> A \<or> x \<in> {n..<n1}" by auto
    then show ?thesis using assms(2) by auto
  next
    assume "x \<in> {n1..<n2}"
    then show ?thesis using assms(1) by auto
  qed
qed

lemma updateAllCones_props:
  assumes "s' = updateAllCones cmd s"
  shows "s' = s\<lparr>greenCones := greenCones s', blueCones := blueCones s',
                yellowCones := yellowCones s',
                wpilibFieldCoordinateGroup := wpilibFieldCoordinateGroup s',
                objects := objects s', nextId := nextId s'\<rparr>"
    and "nextId s \<le> nextId s'"
    and "coneIds s' \<subseteq> coneIds s \<union> {nextId s..<nextId s'}"
    and "set (wpilibFieldCoordinateGroup s')
           \<subseteq> set (wpilibFieldCoordinateGroup s) \<union> {nextId s..<nextId s'}"
    and "distinct (wpilibFieldCoordinateGroup s) \<Longrightarrow> distinct (wpilibFieldCoordinateGroup s')"
    and "x \<notin> coneIds s \<Longrightarrow> x < nextId s \<Longrightarrow>
           (x \<in> set (wpilibFieldCoordinateGroup s') \<longleftrightarrow> x \<in> set (wpilibFieldCoordinateGroup s))
           \<and> objects s' x = objects s x"
proof -
  obtain g s1 where u1: "updateCones (posesGreen cmd) (greenCones s) s = (g, s1)"
    by (cases "updateCones (posesGreen cmd) (greenCones s) s") auto
  define t1 where "t1 = s1\<lparr>greenCones := g\<rparr>"
  obtain b s2 where u2: "updateCones (posesBlue cmd) (blueCones s1) t1 = (b, s2)"
    by (cases "updateCones (posesBlue cmd) (blueCones s1) t1") auto
  define t2 where "t2 = s2\<lparr>blueCones := b\<rparr>"
  obtain y s3 where u3: "updateCones (posesYellow cmd) (yellowCones s2) t2 = (y, s3)"
    by (cases "updateCones (posesYellow cmd) (yellowCones s2) t2") auto
  have s': "s' = s3\<lparr>yellowCones := y\<rparr>"
    using assms u1 u2 u3 by (simp add: updateAllCones_def t1_def t2_def)
  note p1 = updateCones_props [OF u1]
  note p2 = updateCones_props [OF u2]
  note p3 = updateCones_props [OF u3]
  have e1: "blueCones s1 = blueCones s" "yellowCones s1 = yellowCones s"
    by (subst p1(1), simp)+
  have e2: "greenCones s2 = g" "yellowCones s2 = yellowCones s"
    using e1 by (subst p2(1), simp add: t1_def)+
  have e3: "greenCones s3 = g" "blueCones s3 = b"
    using e2 by (subst p3(1), simp add: t2_def)+
  have n1: "nextId t1 = nextId s1" "wpilibFieldCoordinateGroup t1 = wpilibFieldCoordinateGroup s1"
    "objects t1 = objects s1"
    by (simp_all add: t1_def)
  have n2: "nextId t2 = nextId s2" "wpilibFieldCoordinateGroup t2 = wpilibFieldCoordinateGroup s2"
    "objects t2 = objects s2"
    by (simp_all add: t2_def)
  show "s' = s\<lparr>greenCones := greenCones s', blueCones := blueCones s',
                yellowCones := yellowCones s',
                wpilibFieldCoordinateGroup := wpilibFieldCoordinateGroup s',
                objects := objects s', nextId := nextId s'\<rparr>"
  proof -
    obtain c1 o1 m1 where
      q1: "s1 = s\<lparr>wpilibFieldCoordinateGroup := c1, objects := o1, nextId := m1\<rparr>"
      using p1(1) by blast
    obtain c2 o2 m2 where
      q2: "s2 = t1\<lparr>wpilibFieldCoordinateGroup := c2, objects := o2, nextId := m2\<rparr>"
      using p2(1) by blast
    obtain c3 o3 m3 where
      q3: "s3 = t2\<lparr>wpilibFieldCoordinateGroup := c3, objects := o3, nextId := m3\<rparr>"
      using p3(1) by blast
    show ?thesis
      by (simp add: s' q3 t2_def q2 t1_def q1)
  qed
  show le: "nextId s \<le> nextId s'"
    using p1(2) p2(2) p3(2) by (simp add: s' n1 n2)
  have c1: "coneIds t1 \<subseteq> coneIds s \<union> {nextId s..<nextId s1}"
    using p1(3) e1 by (auto simp: coneIds_def t1_def)
  have c2: "coneIds t2 \<subseteq> coneIds t1 \<union> {nextId s1..<nextId s2}"
    using p2(3) e1 e2 by (auto simp: coneIds_def t1_def t2_def n1)
  have c3: "coneIds s' \<subseteq> coneIds t2 \<union> {nextId s2..<nextId s3}"
    using p3(3) e2 e3 by (auto simp: coneIds_def t2_def s' n2)
  have l1: "nextId s \<le> nextId s1" and l2: "nextId s1 \<le> nextId s2"
    and l3: "nextId s2 \<le> nextId s3"
    using p1(2) p2(2) p3(2) by (simp_all add: n1 n2)
  have l12: "nextId s \<le> nextId s2" using l1 l2 by simp
  have n': "nextId s' = nextId s3" by (simp add: s')
  show "coneIds s' \<subseteq> coneIds s \<union> {nextId s..<nextId s'}"
    unfolding n' by (rule grow_trans [OF l12 l3 grow_trans [OF l1 l2 c1 c2] c3])
  have d1: "set (wpilibFieldCoordinateGroup s1)
              \<subseteq> set (wpilibFieldCoordinateGroup s) \<union> {nextId s..<nextId s1}"
    using p1(4) .
  have d2: "set (wpilibFieldCoordinateGroup s2)
              \<subseteq> set (wpilibFieldCoordinateGroup s1) \<union> {nextId s1..<nextId s2}"
    using p2(4) by (simp add: n1)
  have d3: "set (wpilibFieldCoordinateGroup s')
              \<subseteq> set (wpilibFieldCoordinateGroup s2) \<union> {nextId s2..<nextId s3}"
    using p3(4) by (simp add: n2 s')
  show "set (wpilibFieldCoordinateGroup s')
           \<subseteq> set (wpilibFieldCoordinateGroup s) \<union> {nextId s..<nextId s'}"
    unfolding n' by (rule grow_trans [OF l12 l3 grow_trans [OF l1 l2 d1 d2] d3])
  show "distinct (wpilibFieldCoordinateGroup s')" if "distinct (wpilibFieldCoordinateGroup s)"
    using that p1(5) p2(5) p3(5) by (simp add: s' n1 n2)
  show "(x \<in> set (wpilibFieldCoordinateGroup s') \<longleftrightarrow> x \<in> set (wpilibFieldCoordinateGroup s))
           \<and> objects s' x = objects s x" if x: "x \<notin> coneIds s" "x < nextId s"
  proof -
    from x have a1: "x \<notin> set (greenCones s)" and a2: "x \<notin> set (blueCones s1)"
      and a3: "x \<notin> set (yellowCones s2)"
      by (auto simp: coneIds_def e1 e2)
    have b1: "x < nextId t1" using x p1(2) by (simp add: n1)
    have b2: "x < nextId t2" using b1 p2(2) by (simp add: n1 n2)
    from p1(6) [OF a1 x(2)] p2(6) [OF a2 b1] p3(6) [OF a3 b2]
    show ?thesis by (simp add: s' n1 n2)
  qed
qed


subsection \<open>The scene invariant holds along every session\<close>

lemma coneIds_update [simp]:
  "coneIds (this\<lparr>shouldRender := a\<rparr>) = coneIds this"
  "coneIds (this\<lparr>command := b\<rparr>) = coneIds this"
  "coneIds (this\<lparr>cameraIndex := c\<rparr>) = coneIds this"
  "coneIds (this\<lparr>pendingLoads := d\<rparr>) = coneIds this"
  "coneIds (this\<lparr>lastFieldTitle := e\<rparr>) = coneIds this"
  "coneIds (this\<lparr>lastRobotTitle := f\<rparr>) = coneIds this"
  "coneIds (this\<lparr>wpilibCoordinateGroup := g\<rparr>) = coneIds this"
  "coneIds (this\<lparr>wpilibFieldCoordinateGroup := h\<rparr>) = coneIds this"
  "coneIds (this\<lparr>robot := i\<rparr>) = coneIds this"
  "coneIds (this\<lparr>robotCameras := j\<rparr>) = coneIds this"
  "coneIds (this\<lparr>objects := k\<rparr>) = coneIds this"
  "coneIds (this\<lparr>nextId := l\<rparr>) = coneIds this"
  "coneIds (this\<lparr>field := m\<rparr>) = coneIds this"
  "coneIds (this\<lparr>lastRobotVisible := n\<rparr>) = coneIds this"
  "coneIds (this\<lparr>fieldCoordinateRotation := o1\<rparr>) = coneIds this"
  "coneIds (this\<lparr>fieldCoordinatePosition := o2\<rparr>) = coneIds this"
  "coneIds (this\<lparr>controlsEnabled := o3\<rparr>) = coneIds this"
  "coneIds (this\<lparr>canvasFixed := o4\<rparr>) = coneIds this"
  "coneIds (this\<lparr>lastCameraIndex := o5\<rparr>) = coneIds this"
  "coneIds (this\<lparr>lastFrameTime := o6\<rparr>) = coneIds this"
  "coneIds (this\<lparr>lastFrcDataString := o7\<rparr>) = coneIds this"
  "coneIds (this\<lparr>lastWidth := o8\<rparr>) = coneIds this"
  "coneIds (this\<lparr>lastHeight := o9\<rparr>) = coneIds this"
  "coneIds (this\<lparr>lastDevicePixelRatio := p1\<rparr>) = coneIds this"
  "coneIds (this\<lparr>lastIsDark := p2\<rparr>) = coneIds this"
  "coneIds (this\<lparr>lastPrefsMode := p3\<rparr>) = coneIds this"
  "coneIds (this\<lparr>coordinateGroupOrigin := p4\<rparr>) = coneIds this"
  by (simp_all add: coneIds_def)

lemma inv_constructor: "sceneInvariant constructor"
  by (simp add: sceneInvariant_def constructor_def coneIds_def)

lemma inv_render: "sceneInvariant s \<Longrightarrow> sceneInvariant (render cmd s)"
  by (simp add: sceneInvariant_def render_def)

lemma inv_set3DCamera: "sceneInvariant s \<Longrightarrow> sceneInvariant (set3DCamera i s)"
  by (simp add: sceneInvariant_def set3DCamera_def)

lemma inv_controlsChange: "sceneInvariant s \<Longrightarrow> sceneInvariant (controlsChange s)"
  by (simp add: sceneInvariant_def controlsChange_def)

lemma inv_loadFailed: "sceneInvariant s \<Longrightarrow> sceneInvariant (loadFailed k s)"
  by (simp add: sceneInvariant_def loadFailed_def)

lemma inv_pending: "sceneInvariant s \<Longrightarrow> sceneInvariant (s\<lparr>pendingLoads := p\<rparr>)"
  by (simp add: sceneInvariant_def)

lemma inv_fieldLoaded: "sceneInvariant s \<Longrightarrow> sceneInvariant (fieldLoaded cv fc s)"
  by (auto simp: sceneInvariant_def fieldLoaded_def Let_def distinct_add less_SucI)

lemma inv_robotLoaded: "sceneInvariant s \<Longrightarrow> sceneInvariant (robotLoaded cv rc s)"
  unfolding sceneInvariant_def robotLoaded_def Let_def
  by (auto simp: distinct_add set_add)

lemma inv_loadComplete: "sceneInvariant s \<Longrightarrow> sceneInvariant (loadComplete cv k s)"
  by (auto simp: loadComplete_def Let_def inv_fieldLoaded inv_robotLoaded inv_pending
      split: Load.splits)

lemma inv_checkRenderMode: "sceneInvariant s \<Longrightarrow> sceneInvariant (checkRenderMode w s)"
  by (simp add: sceneInvariant_def checkRenderMode_def split: option.splits)

lemma inv_checkSize: "sceneInvariant s \<Longrightarrow> sceneInvariant (checkSize w s)"
  by (simp add: sceneInvariant_def checkSize_def)

lemma inv_addField: "sceneInvariant s \<Longrightarrow> sceneInvariant (addField t fc s)"
  by (auto simp: sceneInvariant_def addField_def Let_def distinct_remove split: option.splits)

lemma inv_addRobot: "sceneInvariant s \<Longrightarrow> sceneInvariant (addRobot t rc n s)"
  by (auto simp: sceneInvariant_def addRobot_def Let_def distinct_remove set_remove
      split: option.splits)

lemma inv_updateFieldCoordinates:
  "sceneInvariant s \<Longrightarrow> sceneInvariant (updateFieldCoordinates cv fc a s)"
  by (simp add: sceneInvariant_def updateFieldCoordinates_def Let_def)

lemma inv_setRobotPosition: "sceneInvariant s \<Longrightarrow> sceneInvariant (setRobotPosition cmd s)"
  by (auto simp: sceneInvariant_def setRobotPosition_def Let_def distinct_remove set_remove
      distinct_add set_add split: option.splits)

lemma inv_updateAllCones:
  assumes "sceneInvariant s"
  shows "sceneInvariant (updateAllCones cmd s)"
proof -
  define s' where "s' = updateAllCones cmd s"
  note p = updateAllCones_props [OF s'_def]
  obtain g b y c ob m where eq: "s' = s\<lparr>greenCones := g, blueCones := b, yellowCones := y,
      wpilibFieldCoordinateGroup := c, objects := ob, nextId := m\<rparr>"
    using p(1) by blast
  have f: "robot s' = robot s" "lastRobotVisible s' = lastRobotVisible s"
    "wpilibCoordinateGroup s' = wpilibCoordinateGroup s"
    by (simp_all add: eq)
  have d1: "distinct (wpilibCoordinateGroup s')" using assms by (simp add: f sceneInvariant_def)
  have d2: "distinct (wpilibFieldCoordinateGroup s')"
    using assms p(5) by (simp add: sceneInvariant_def)
  have b1: "\<forall>c \<in> set (wpilibFieldCoordinateGroup s'). c < nextId s'"
    using assms p(2,4) by (fastforce simp: sceneInvariant_def)
  have b2: "\<forall>c \<in> coneIds s'. c < nextId s'"
    using assms p(2,3) by (fastforce simp: sceneInvariant_def)
  have r: "\<forall>r. robot s' = Some r \<longrightarrow>
             r < nextId s' \<and> r \<notin> coneIds s'
             \<and> (r \<in> set (wpilibFieldCoordinateGroup s') \<longrightarrow> lastRobotVisible s')"
  proof (intro allI impI)
    fix r assume "robot s' = Some r"
    then have rs: "robot s = Some r" by (simp add: f)
    with assms have r1: "r < nextId s" and r2: "r \<notin> coneIds s"
      and r3: "r \<in> set (wpilibFieldCoordinateGroup s) \<longrightarrow> lastRobotVisible s"
      by (auto simp: sceneInvariant_def)
    have "r \<notin> coneIds s'" using p(3) r1 r2 by auto
    moreover have "r < nextId s'" using r1 p(2) by simp
    moreover have "r \<in> set (wpilibFieldCoordinateGroup s') \<longrightarrow> lastRobotVisible s'"
      using p(6) [OF r2 r1] r3 by (simp add: f)
    ultimately show "r < nextId s' \<and> r \<notin> coneIds s'
             \<and> (r \<in> set (wpilibFieldCoordinateGroup s') \<longrightarrow> lastRobotVisible s')" by blast
  qed
  show ?thesis
    using d1 d2 b1 b2 r unfolding s'_def [symmetric] sceneInvariant_def by blast
qed

lemma inv_setCamera: "sceneInvariant s \<Longrightarrow> setCamera rc s = Inr s' \<Longrightarrow> sceneInvariant s'"
  by (auto simp: sceneInvariant_def setCamera_def Let_def split: if_splits option.splits)

lemma inv_drawFrame:
  "sceneInvariant s \<Longrightarrow> drawFrame cv w cmd fc rc s = Inr s' \<Longrightarrow> sceneInvariant s'"
  unfolding drawFrame_def Let_def
  apply (erule inv_setCamera [rotated])
  apply (intro inv_updateAllCones inv_setRobotPosition inv_updateFieldCoordinates inv_addRobot
      inv_addField)
  apply (simp add: sceneInvariant_def)
  done

lemma inv_renderFrame:
  "sceneInvariant s \<Longrightarrow> renderFrame cv w s = Inr s' \<Longrightarrow> sceneInvariant s'"
proof -
  assume i: "sceneInvariant s" and r: "renderFrame cv w s = Inr s'"
  define t where "t = checkSize w (checkRenderMode w s)"
  have it: "sceneInvariant t" using i by (simp add: t_def inv_checkSize inv_checkRenderMode)
  have it': "sceneInvariant (t\<lparr>lastFrameTime := now w, shouldRender := False\<rparr>)"
    using it by (simp add: sceneInvariant_def)
  from r it it' show ?thesis
    unfolding renderFrame_def Let_def t_def [symmetric]
    by (auto split: option.splits if_splits prod.splits dest: inv_drawFrame [rotated])
qed

lemma inv_step: "sceneInvariant s \<Longrightarrow> step cv e s = Inr s' \<Longrightarrow> sceneInvariant s'"
  by (cases e) (auto simp: inv_render inv_set3DCamera inv_renderFrame inv_loadComplete
      inv_loadFailed inv_controlsChange)

lemma inv_run: "sceneInvariant s \<Longrightarrow> run cv es s = Inr s' \<Longrightarrow> sceneInvariant s'"
  by (induction es arbitrary: s) (auto split: sum.splits dest: inv_step)

lemma run_snoc:
  "run cv (es @ [e]) s = (case run cv es s of Inl err \<Rightarrow> Inl err | Inr t \<Rightarrow> step cv e t)"
  by (induction es arbitrary: s) (auto split: sum.splits)

subsection \<open>What each part of a frame leaves unchanged\<close>

lemma scheduler_fields:
  "command (checkSize w (checkRenderMode w s)) = command s"
  "lastFrameTime (checkSize w (checkRenderMode w s)) = lastFrameTime s"
  by (simp_all add: checkSize_def checkRenderMode_def split: option.splits)

lemma renderFrame_drawn:
  "frameDrawn w s cmd fc rc \<Longrightarrow>
   renderFrame cv w s = drawFrame cv w cmd fc rc (prepared w s)"
  by (auto simp: frameDrawn_def renderFrame_def Let_def scheduler_fields prepared_def)

lemma prepared_fields:
  "robot (prepared w s) = robot s"
  "field (prepared w s) = field s"
  "lastRobotVisible (prepared w s) = lastRobotVisible s"
  "wpilibFieldCoordinateGroup (prepared w s) = wpilibFieldCoordinateGroup s"
  "wpilibCoordinateGroup (prepared w s) = wpilibCoordinateGroup s"
  "lastRobotTitle (prepared w s) = lastRobotTitle s"
  "lastFieldTitle (prepared w s) = lastFieldTitle s"
  "lastFrcDataString (prepared w s) = lastFrcDataString s"
  "objects (prepared w s) = objects s"
  "nextId (prepared w s) = nextId s"
  "pendingLoads (prepared w s) = pendingLoads s"
  "robotCameras (prepared w s) = robotCameras s"
  "cameraIndex (prepared w s) = cameraIndex s"
  "coneIds (prepared w s) = coneIds s"
  by (simp_all add: prepared_def checkSize_def checkRenderMode_def coneIds_def
      split: option.splits)

lemma inv_prepared: "sceneInvariant s \<Longrightarrow> sceneInvariant (prepared w s)"
  by (simp add: sceneInvariant_def prepared_fields)

lemma addField_fields:
  "robot (addField t fc s) = robot s"
  "lastRobotVisible (addField t fc s) = lastRobotVisible s"
  "wpilibFieldCoordinateGroup (addField t fc s) = wpilibFieldCoordinateGroup s"
  "lastRobotTitle (addField t fc s) = lastRobotTitle s"
  "lastFrcDataString (addField t fc s) = lastFrcDataString s"
  "objects (addField t fc s) = objects s"
  "nextId (addField t fc s) = nextId s"
  "robotCameras (addField t fc s) = robotCameras s"
  "cameraIndex (addField t fc s) = cameraIndex s"
  "coneIds (addField t fc s) = coneIds s"
  "filter isRobotLoad (pendingLoads (addField t fc s)) = filter isRobotLoad (pendingLoads s)"
  by (simp_all add: addField_def Let_def coneIds_def split: option.splits)


lemma updateFieldCoordinates_fields:
  "robot (updateFieldCoordinates cv fc a s) = robot s"
  "lastRobotVisible (updateFieldCoordinates cv fc a s) = lastRobotVisible s"
  "wpilibFieldCoordinateGroup (updateFieldCoordinates cv fc a s) = wpilibFieldCoordinateGroup s"
  "wpilibCoordinateGroup (updateFieldCoordinates cv fc a s) = wpilibCoordinateGroup s"
  "objects (updateFieldCoordinates cv fc a s) = objects s"
  "nextId (updateFieldCoordinates cv fc a s) = nextId s"
  "pendingLoads (updateFieldCoordinates cv fc a s) = pendingLoads s"
  "robotCameras (updateFieldCoordinates cv fc a s) = robotCameras s"
  "cameraIndex (updateFieldCoordinates cv fc a s) = cameraIndex s"
  "coneIds (updateFieldCoordinates cv fc a s) = coneIds s"
  by (simp_all add: updateFieldCoordinates_def Let_def coneIds_def)

lemma setRobotPosition_fields:
  "robot (setRobotPosition cmd s) = robot s"
  "nextId (setRobotPosition cmd s) = nextId s"
  "pendingLoads (setRobotPosition cmd s) = pendingLoads s"
  "robotCameras (setRobotPosition cmd s) = robotCameras s"
  "cameraIndex (setRobotPosition cmd s) = cameraIndex s"
  "coneIds (setRobotPosition cmd s) = coneIds s"
  "wpilibCoordinateGroup (setRobotPosition cmd s) = wpilibCoordinateGroup s"
  "fieldCoordinateRotation (setRobotPosition cmd s) = fieldCoordinateRotation s"
  "fieldCoordinatePosition (setRobotPosition cmd s) = fieldCoordinatePosition s"
  by (simp_all add: setRobotPosition_def Let_def coneIds_def split: option.splits)

lemma updateAllCones_fields:
  "robot (updateAllCones cmd s) = robot s"
  "field (updateAllCones cmd s) = field s"
  "lastRobotVisible (updateAllCones cmd s) = lastRobotVisible s"
  "wpilibCoordinateGroup (updateAllCones cmd s) = wpilibCoordinateGroup s"
  "pendingLoads (updateAllCones cmd s) = pendingLoads s"
  "robotCameras (updateAllCones cmd s) = robotCameras s"
  "cameraIndex (updateAllCones cmd s) = cameraIndex s"
  "controlsEnabled (updateAllCones cmd s) = controlsEnabled s"
  "fieldCoordinateRotation (updateAllCones cmd s) = fieldCoordinateRotation s"
  "fieldCoordinatePosition (updateAllCones cmd s) = fieldCoordinatePosition s"
  by (subst updateAllCones_props(1) [OF refl], simp)+

lemma setCamera_frame:
  "setCamera rc s = Inr s' \<Longrightarrow>
   s' = s\<lparr>cameraIndex := cameraIndex s', controlsEnabled := controlsEnabled s',
          coordinateGroupOrigin := coordinateGroupOrigin s',
          canvasFixed := canvasFixed s', lastCameraIndex := lastCameraIndex s'\<rparr>"
  unfolding setCamera_def Let_def
  by (auto split: if_splits option.splits)

lemma setCamera_fields:
  assumes "setCamera rc s = Inr s'"
  shows "robot s' = robot s" "field s' = field s" "lastRobotVisible s' = lastRobotVisible s"
    "wpilibFieldCoordinateGroup s' = wpilibFieldCoordinateGroup s"
    "wpilibCoordinateGroup s' = wpilibCoordinateGroup s"
    "objects s' = objects s" "pendingLoads s' = pendingLoads s"
    "fieldCoordinateRotation s' = fieldCoordinateRotation s"
    "fieldCoordinatePosition s' = fieldCoordinatePosition s"
  by (subst setCamera_frame [OF assms], simp)+

lemma drawFrame_noReload:
  assumes "optionsRobot cmd = lastRobotTitle s" and "frcData w = lastFrcDataString s"
  shows "drawFrame cv w cmd fc rc s =
     setCamera rc (updateAllCones cmd (setRobotPosition cmd
       (updateFieldCoordinates cv fc (optionsAlliance cmd) (addField (optionsField cmd) fc s))))"
  using assms by (simp add: drawFrame_def addRobot_def addField_fields)

lemmas eval_defs = constructor_def render_def set3DCamera_def renderFrame_def drawFrame_def
  checkRenderMode_def checkSize_def addField_def addRobot_def updateFieldCoordinates_def
  setRobotPosition_def updateAllCones_def updateCones_def removeExtraCones.simps
  addNewCones.simps setCamera_def findFieldConfig_def findRobotConfig_def loadComplete_def
  fieldLoaded_def robotLoaded_def add_def remove_def Let_def EFFICIENCY_MAX_FPS_def
  frameDrawn_def exampleField_def exampleField2_def exampleCamera_def robotA_def robotB_def
  exampleCatalog_def exampleWindow_def examplePose_def exampleCommand_def


subsection \<open>Field frame\<close>

lemma drawFrame_fieldFrame:
  assumes "drawFrame cv w cmd fc rc s = Inr s'"
  shows "fieldCoordinateRotation s' =
           ((0, 0, 1), if optionsAlliance cmd = ''blue'' then 0 else pi)"
    and "fieldCoordinatePosition s' =
           (cv (widthInches fc / 2) ''inches'' ''meters''
              * (if optionsAlliance cmd = ''blue'' then - 1 else 1),
            cv (heightInches fc / 2) ''inches'' ''meters''
              * (if optionsAlliance cmd = ''blue'' then - 1 else 1),
            0)"
proof -
  define s3 where "s3 = addRobot (optionsRobot cmd) rc (frcData w \<noteq> lastFrcDataString s)
     (addField (optionsField cmd) fc
        (if frcData w \<noteq> lastFrcDataString s then s\<lparr>lastFrcDataString := frcData w\<rparr> else s))"
  define s6 where "s6 = updateAllCones cmd (setRobotPosition cmd
     (updateFieldCoordinates cv fc (optionsAlliance cmd) s3))"
  have cam: "setCamera rc s6 = Inr s'"
    using assms by (simp add: drawFrame_def Let_def s3_def s6_def)
  note cf = setCamera_fields [OF cam]
  show "fieldCoordinateRotation s' =
           ((0, 0, 1), if optionsAlliance cmd = ''blue'' then 0 else pi)"
    by (simp add: cf s6_def updateAllCones_fields setRobotPosition_fields
        updateFieldCoordinates_def Let_def)
  show "fieldCoordinatePosition s' =
           (cv (widthInches fc / 2) ''inches'' ''meters''
              * (if optionsAlliance cmd = ''blue'' then - 1 else 1),
            cv (heightInches fc / 2) ''inches'' ''meters''
              * (if optionsAlliance cmd = ''blue'' then - 1 else 1),
            0)"
    by (simp add: cf s6_def updateAllCones_fields setRobotPosition_fields
        updateFieldCoordinates_def Let_def)
qed

text \<open>
  Claim C7. Take two drawn frames for the same field configuration, one with alliance
  \<open>blue\<close> and one with alliance \<open>red\<close>. The blue frame leaves the field frame with rotation
  angle 0 about the vertical axis (0, 0, 1), the red frame with angle \<open>pi\<close> about the same
  axis, a half-turn more. The blue translation is minus half the field's width and height
  converted to meters, and the red translation is its exact negation.
\<close>

theorem field_frame_alliance:
  assumes "frameDrawn wB sB cmdB fieldConfig rcB" and "optionsAlliance cmdB = ''blue''"
    and "renderFrame convert wB sB = Inr sB'"
    and "frameDrawn wR sR cmdR fieldConfig rcR" and "optionsAlliance cmdR = ''red''"
    and "renderFrame convert wR sR = Inr sR'"
  shows "fieldCoordinateRotation sB' = ((0, 0, 1), 0)
       \<and> fieldCoordinateRotation sR' = ((0, 0, 1), 0 + pi)
       \<and> fieldCoordinatePosition sB' =
           (- convert (widthInches fieldConfig / 2) ''inches'' ''meters'',
            - convert (heightInches fieldConfig / 2) ''inches'' ''meters'', 0)
       \<and> fieldCoordinatePosition sR' = negate (fieldCoordinatePosition sB')
       \<and> fieldCoordinatePosition sB' = negate (fieldCoordinatePosition sR')"
proof -
  have b: "drawFrame convert wB cmdB fieldConfig rcB (prepared wB sB) = Inr sB'"
    using assms(1,3) by (simp add: renderFrame_drawn)
  have r: "drawFrame convert wR cmdR fieldConfig rcR (prepared wR sR) = Inr sR'"
    using assms(4,6) by (simp add: renderFrame_drawn)
  show ?thesis
    using drawFrame_fieldFrame [OF b] drawFrame_fieldFrame [OF r] assms(2,5)
    by (simp add: negate_def)
qed

theorem field_frame_alliance_witness:
  "fieldCoordinatePosition
     (projr (renderFrame convertUnits exampleWindow
        (render (Some (exampleCommand ''F'' ''A'' ''red'' None)) constructor)))
   = negate (fieldCoordinatePosition
       (projr (renderFrame convertUnits exampleWindow
          (render (Some (exampleCommand ''F'' ''A'' ''blue'' None)) constructor))))
   \<and> fieldCoordinateRotation
       (projr (renderFrame convertUnits exampleWindow
          (render (Some (exampleCommand ''F'' ''A'' ''red'' None)) constructor)))
     = ((0, 0, 1), pi)"
proof -
  let ?sB = "render (Some (exampleCommand ''F'' ''A'' ''blue'' None)) constructor"
  let ?sR = "render (Some (exampleCommand ''F'' ''A'' ''red'' None)) constructor"
  have "\<exists>sB'. renderFrame convertUnits exampleWindow ?sB = Inr sB'"
    by (simp add: eval_defs cong: let_weak_cong)
  then obtain sB' where fb: "renderFrame convertUnits exampleWindow ?sB = Inr sB'" ..
  have "\<exists>sR'. renderFrame convertUnits exampleWindow ?sR = Inr sR'"
    by (simp add: eval_defs cong: let_weak_cong)
  then obtain sR' where fr: "renderFrame convertUnits exampleWindow ?sR = Inr sR'" ..
  have db: "frameDrawn exampleWindow ?sB (exampleCommand ''F'' ''A'' ''blue'' None)
              exampleField robotA"
    by (simp add: eval_defs cong: let_weak_cong)
  have dr: "frameDrawn exampleWindow ?sR (exampleCommand ''F'' ''A'' ''red'' None)
              exampleField robotA"
    by (simp add: eval_defs cong: let_weak_cong)
  have ab: "optionsAlliance (exampleCommand ''F'' ''A'' ''blue'' None) = ''blue''"
    and ar: "optionsAlliance (exampleCommand ''F'' ''A'' ''red'' None) = ''red''"
    by (simp_all add: exampleCommand_def)
  from field_frame_alliance [OF db ab fb dr ar fr]
  show ?thesis unfolding fb fr by simp
qed


subsection \<open>Camera selection\<close>










subsection \<open>Robot pose and visibility\<close>

lemma setRobotPosition_absent:
  assumes "sceneInvariant s" and "robot s = Some r" and "posesRobot cmd = None"
  shows "r \<notin> set (wpilibFieldCoordinateGroup (setRobotPosition cmd s))"
    and "\<not> lastRobotVisible (setRobotPosition cmd s)"
  using assms by (auto simp: setRobotPosition_def Let_def sceneInvariant_def set_remove)

lemma setRobotPosition_present:
  assumes "robot s = Some r" and "posesRobot cmd = Some pose" and "\<not> lastRobotVisible s"
  shows "r \<in> set (wpilibFieldCoordinateGroup (setRobotPosition cmd s))"
    and "lastRobotVisible (setRobotPosition cmd s)"
    and "objects (setRobotPosition cmd s) r =
           Some \<lparr>objPosition = posePosition pose, objRotation = poseQuaternion pose\<rparr>"
  using assms by (auto simp: setRobotPosition_def Let_def set_add setPose_def)

text \<open>
  Claim C10. Take a visualizer reached by any session, and a drawn frame in which the
  robot model \<open>r\<close> is loaded and stays loaded (the robot id and the catalog are the ones
  of the last load, so no reload starts). If the command carries no robot pose, then after
  the frame \<open>r\<close> is not a child of the field coordinate group and the robot is recorded as
  not visible. If the command carries a pose and the robot was recorded as not visible,
  then after the frame the robot slot still holds \<open>r\<close>, \<open>r\<close> is a child of the field
  coordinate group, the robot is recorded as visible, the position and rotation of \<open>r\<close> are
  those of the pose (the pose stores its rotation as W, X, Y, Z and the object's quaternion
  takes X, Y, Z, W from it), and no robot load has been issued.
\<close>

theorem robot_pose_visibility:
  assumes reach: "run cv evs constructor = Inr s"
    and drawn: "frameDrawn w s cmd fc rc"
    and same: "optionsRobot cmd = lastRobotTitle s" "frcData w = lastFrcDataString s"
    and loaded: "robot s = Some r"
    and frame: "renderFrame cv w s = Inr s'"
  shows "(posesRobot cmd = None \<longrightarrow>
           r \<notin> set (wpilibFieldCoordinateGroup s') \<and> \<not> lastRobotVisible s')
       \<and> (\<forall>pose rw rx ry rz.
             posesRobot cmd = Some pose \<and> poseRotation pose = (rw, rx, ry, rz)
             \<and> \<not> lastRobotVisible s \<longrightarrow>
             robot s' = Some r
             \<and> r \<in> set (wpilibFieldCoordinateGroup s')
             \<and> lastRobotVisible s'
             \<and> objects s' r =
                 Some \<lparr>objPosition = posePosition pose,
                       objRotation = \<lparr>qx = rx, qy = ry, qz = rz, qw = rw\<rparr>\<rparr>
             \<and> filter isRobotLoad (pendingLoads s') = filter isRobotLoad (pendingLoads s))"
proof -
  have inv: "sceneInvariant s" using inv_run [OF inv_constructor reach] .
  define s0 where "s0 = prepared w s"
  define s4 where "s4 = updateFieldCoordinates cv fc (optionsAlliance cmd)
                          (addField (optionsField cmd) fc s0)"
  define s5 where "s5 = setRobotPosition cmd s4"
  define s6 where "s6 = updateAllCones cmd s5"
  have same0: "optionsRobot cmd = lastRobotTitle s0" "frcData w = lastFrcDataString s0"
    using same by (simp_all add: s0_def prepared_fields)
  have cam: "setCamera rc s6 = Inr s'"
    using frame renderFrame_drawn [OF drawn, of cv] drawFrame_noReload [OF same0, of cv fc rc]
    by (simp add: s0_def s4_def s5_def s6_def)
  have inv4: "sceneInvariant s4"
    unfolding s4_def s0_def
    by (intro inv_updateFieldCoordinates inv_addField inv_prepared inv)
  have inv5: "sceneInvariant s5" unfolding s5_def by (rule inv_setRobotPosition [OF inv4])
  have r4: "robot s4 = Some r" "lastRobotVisible s4 = lastRobotVisible s"
    "filter isRobotLoad (pendingLoads s4) = filter isRobotLoad (pendingLoads s)"
    using loaded
    by (simp_all add: s4_def s0_def updateFieldCoordinates_fields addField_fields prepared_fields)
  have r5: "robot s5 = Some r" "pendingLoads s5 = pendingLoads s4"
    using r4 by (simp_all add: s5_def setRobotPosition_fields)
  from inv5 r5 have fresh: "r \<notin> coneIds s5" "r < nextId s5"
    by (auto simp: sceneInvariant_def)
  note keep = updateAllCones_props(6) [OF s6_def fresh]
  note cf = setCamera_fields [OF cam]
  have p6: "robot s' = Some r" "lastRobotVisible s' = lastRobotVisible s5"
    "pendingLoads s' = pendingLoads s4"
    "r \<in> set (wpilibFieldCoordinateGroup s') \<longleftrightarrow> r \<in> set (wpilibFieldCoordinateGroup s5)"
    "objects s' r = objects s5 r"
    using r5 keep by (simp_all add: cf s6_def updateAllCones_fields)
  show ?thesis
  proof (intro conjI impI allI)
    assume a: "posesRobot cmd = None"
    from setRobotPosition_absent [OF inv4 r4(1) a]
    show "r \<notin> set (wpilibFieldCoordinateGroup s')" "\<not> lastRobotVisible s'"
      by (simp_all add: p6 s5_def)
  next
    fix pose rw rx ry rz
    assume a: "posesRobot cmd = Some pose \<and> poseRotation pose = (rw, rx, ry, rz)
               \<and> \<not> lastRobotVisible s"
    then have nv: "\<not> lastRobotVisible s4" by (simp add: r4)
    note pr = setRobotPosition_present [OF r4(1) conjunct1 [OF a] nv]
    have q: "poseQuaternion pose = \<lparr>qx = rx, qy = ry, qz = rz, qw = rw\<rparr>"
      using a by (simp add: poseQuaternion_def)
    show "robot s' = Some r" by (rule p6)
    show "r \<in> set (wpilibFieldCoordinateGroup s')" using pr by (simp add: p6 s5_def)
    show "lastRobotVisible s'" using pr by (simp add: p6 s5_def)
    show "objects s' r =
            Some \<lparr>objPosition = posePosition pose,
                  objRotation = \<lparr>qx = rx, qy = ry, qz = rz, qw = rw\<rparr>\<rparr>"
      using pr q by (simp add: p6 s5_def)
    show "filter isRobotLoad (pendingLoads s') = filter isRobotLoad (pendingLoads s)"
      by (simp add: p6 r4)
  qed
qed

theorem robot_pose_visibility_witness:
  "robot (projr (run convertUnits (robotSession @ [Frame exampleWindow]) constructor)) = Some 2
   \<and> 2 \<in> set (wpilibFieldCoordinateGroup
                (projr (run convertUnits (robotSession @ [Frame exampleWindow]) constructor)))
   \<and> objects (projr (run convertUnits (robotSession @ [Frame exampleWindow]) constructor)) 2 =
       Some \<lparr>objPosition = (1, 2, 3),
             objRotation = \<lparr>qx = 4 / 9, qy = 5 / 9, qz = 2 / 3, qw = 2 / 9\<rparr>\<rparr>
   \<and> 3 \<notin> set (wpilibFieldCoordinateGroup
                (projr (run convertUnits
                   (shownSession @ [Render (Some (exampleCommand ''F'' ''A'' ''blue'' None)),
                                    Frame exampleWindow]) constructor)))
   \<and> \<not> lastRobotVisible
         (projr (run convertUnits
            (shownSession @ [Render (Some (exampleCommand ''F'' ''A'' ''blue'' None)),
                             Frame exampleWindow]) constructor))"
proof -
  let ?shown = "exampleCommand ''F'' ''A'' ''blue'' (Some examplePose)"
  let ?hidden = "exampleCommand ''F'' ''A'' ''blue'' None"
  have "\<exists>s. run convertUnits robotSession constructor = Inr s
          \<and> frameDrawn exampleWindow s ?shown exampleField robotA
          \<and> optionsRobot ?shown = lastRobotTitle s
          \<and> frcData exampleWindow = lastFrcDataString s
          \<and> robot s = Some 2 \<and> \<not> lastRobotVisible s
          \<and> (\<exists>s'. renderFrame convertUnits exampleWindow s = Inr s')"
    by (simp add: eval_defs robotSession_def cong: let_weak_cong)
  then obtain s s' where r: "run convertUnits robotSession constructor = Inr s"
    and d: "frameDrawn exampleWindow s ?shown exampleField robotA"
    and t: "optionsRobot ?shown = lastRobotTitle s"
    and c: "frcData exampleWindow = lastFrcDataString s"
    and l: "robot s = Some 2" and v: "\<not> lastRobotVisible s"
    and f: "renderFrame convertUnits exampleWindow s = Inr s'"
    by blast
  have p: "posesRobot ?shown = Some examplePose"
    "poseRotation examplePose = (2 / 9, 4 / 9, 5 / 9, 2 / 3)"
    by (simp_all add: exampleCommand_def examplePose_def)
  have e: "run convertUnits (robotSession @ [Frame exampleWindow]) constructor = Inr s'"
    by (simp add: run_snoc r f)
  have "\<exists>u. run convertUnits (shownSession @ [Render (Some ?hidden)]) constructor = Inr u
          \<and> frameDrawn exampleWindow u ?hidden exampleField robotA
          \<and> optionsRobot ?hidden = lastRobotTitle u
          \<and> frcData exampleWindow = lastFrcDataString u
          \<and> robot u = Some 3
          \<and> (\<exists>u'. renderFrame convertUnits exampleWindow u = Inr u')"
    by (simp add: eval_defs shownSession_def cong: let_weak_cong)
  then obtain u u' where
    ru: "run convertUnits (shownSession @ [Render (Some ?hidden)]) constructor = Inr u"
    and du: "frameDrawn exampleWindow u ?hidden exampleField robotA"
    and tu: "optionsRobot ?hidden = lastRobotTitle u"
    and cu: "frcData exampleWindow = lastFrcDataString u"
    and lu: "robot u = Some 3"
    and fu: "renderFrame convertUnits exampleWindow u = Inr u'"
    by blast
  have pu: "posesRobot ?hidden = None"
    by (simp add: exampleCommand_def)
  have "run convertUnits ((shownSession @ [Render (Some ?hidden)]) @ [Frame exampleWindow])
           constructor = Inr u'"
    by (simp only: run_snoc [of _ "shownSession @ [Render (Some ?hidden)]"] ru fu
        sum.case step.simps)
  then have eu: "run convertUnits
      (shownSession @ [Render (Some ?hidden), Frame exampleWindow]) constructor = Inr u'"
    by simp
  from robot_pose_visibility [OF r d t c l f] p v
  have first: "robot s' = Some 2 \<and> 2 \<in> set (wpilibFieldCoordinateGroup s')
      \<and> objects s' 2 =
          Some \<lparr>objPosition = posePosition examplePose,
                objRotation = \<lparr>qx = 4 / 9, qy = 5 / 9, qz = 2 / 3, qw = 2 / 9\<rparr>\<rparr>"
    by blast
  from robot_pose_visibility [OF ru du tu cu lu fu] pu
  have second: "3 \<notin> set (wpilibFieldCoordinateGroup u') \<and> \<not> lastRobotVisible u'"
    by blast
  from first second show ?thesis
    unfolding e eu by (simp add: examplePose_def)
qed


subsection \<open>Replacing the field and the robot\<close>







subsection \<open>Completion of a superseded load\<close>

text \<open>
  Claim C1, as the code has it. The completion callback of a robot load does not look at
  the id that is desired when it runs. Whenever a pending robot load completes, its result
  is installed: the robot slot holds the new group, the visualizer holds one camera object
  per camera of the configuration that was loaded, the group is attached to the field
  coordinate group if and only if the robot was last recorded visible, the desired id is
  left as it is, and a render is requested. After the id changes from A to B with A's load
  pending, the completion of A's load therefore installs A's node; when B's load completes
  the robot slot holds B's node.
\<close>

theorem completed_robot_load_is_installed:
  assumes "k < length (pendingLoads s)" and "pendingLoads s ! k = RobotLoad rc"
  shows "robot (loadComplete cv k s) = Some (nextId s + 1)
       \<and> length (robotCameras (loadComplete cv k s)) = length (cameras rc)
       \<and> wpilibFieldCoordinateGroup (loadComplete cv k s) =
           (if lastRobotVisible s then add (nextId s + 1) (wpilibFieldCoordinateGroup s)
            else wpilibFieldCoordinateGroup s)
       \<and> lastRobotTitle (loadComplete cv k s) = lastRobotTitle s
       \<and> shouldRender (loadComplete cv k s)"
  using assms by (simp add: loadComplete_def robotLoaded_def Let_def del: upt_Suc)

theorem completed_robot_load_is_installed_witness:
  "robot (loadComplete convertUnits 1 (projr (run convertUnits staleSession constructor)))
     = Some 2
   \<and> lastRobotTitle
       (loadComplete convertUnits 1 (projr (run convertUnits staleSession constructor)))
     = ''B''
   \<and> robot (loadComplete convertUnits 1
       (loadComplete convertUnits 1 (projr (run convertUnits staleSession constructor))))
     = Some 6"
proof -
  have "\<exists>s. run convertUnits staleSession constructor = Inr s
          \<and> pendingLoads s = [FieldLoad exampleField, RobotLoad robotA, RobotLoad robotB]
          \<and> nextId s = 1 \<and> lastRobotTitle s = ''B''"
    by (simp add: eval_defs staleSession_def cong: let_weak_cong)
  then obtain s where r: "run convertUnits staleSession constructor = Inr s"
    and p: "pendingLoads s = [FieldLoad exampleField, RobotLoad robotA, RobotLoad robotB]"
    and n: "nextId s = 1" and t: "lastRobotTitle s = ''B''"
    by blast
  have k: "1 < length (pendingLoads s)" and a: "pendingLoads s ! 1 = RobotLoad robotA"
    by (simp_all add: p)
  define s1 where "s1 = loadComplete convertUnits 1 s"
  have p1: "pendingLoads s1 = [FieldLoad exampleField, RobotLoad robotB]"
    and n1: "nextId s1 = 5"
    by (simp_all add: s1_def loadComplete_def robotLoaded_def Let_def p n robotA_def)
  have k1: "1 < length (pendingLoads s1)" and b: "pendingLoads s1 ! 1 = RobotLoad robotB"
    by (simp_all add: p1)
  from completed_robot_load_is_installed [OF k a, of convertUnits]
  have a1: "robot s1 = Some 2" "lastRobotTitle s1 = ''B''"
    by (simp_all add: s1_def n t)
  from completed_robot_load_is_installed [OF k1 b, of convertUnits]
  have a2: "robot (loadComplete convertUnits 1 s1) = Some 6"
    by (simp add: n1)
  from a1 a2 show ?thesis
    unfolding r s1_def by simp
qed

text \<open>
  The claim as the specification words it fails in the session where robot A and then
  robot B are requested before either model has arrived. When A's load completes, the
  desired id is B, and yet A's group 2 is installed in the robot slot. A frame then attaches
  it, and when B's load completes both A's group 2 and B's group 6 are children of the field
  coordinate group.
\<close>

theorem completed_robot_load_is_installed_counterexample:
  "map_sum id lastRobotTitle
     (run convertUnits (staleSession @ [LoadComplete 1]) constructor) = Inr ''B''
   \<and> map_sum id robot
     (run convertUnits (staleSession @ [LoadComplete 1]) constructor) = Inr (Some 2)
   \<and> map_sum id pendingLoads
     (run convertUnits (staleSession @ [LoadComplete 1]) constructor)
       = Inr [FieldLoad exampleField, RobotLoad robotB]
   \<and> map_sum id wpilibFieldCoordinateGroup
     (run convertUnits
        (staleSession @ [LoadComplete 1, Frame exampleWindow, LoadComplete 1]) constructor)
       = Inr [2, 6]
   \<and> map_sum id robot
     (run convertUnits
        (staleSession @ [LoadComplete 1, Frame exampleWindow, LoadComplete 1]) constructor)
       = Inr (Some 6)"
  by (simp add: eval_defs staleSession_def cong: let_weak_cong)


end
